theory Spec2Isabelle
  imports Main "HOL-Library.Word"
begin

section \<open>Data model (harvest-tui.go, lines 37-98)\<close>

text \<open>
  Go's \<open>int\<close> identifiers are decoded from JSON and only copied and compared, never
  computed with, so they are modelled as \<open>int\<close>. Go strings are byte sequences, as
  \<open>string\<close> is. The \<open>float64\<close> field \<open>Hours\<close> is carried as its 64-bit pattern: the
  engine never computes with it. Field names carry the struct's name as a prefix, because
  \<open>Project\<close>, \<open>Task\<close>, \<open>Timer\<close> and \<open>ListItem\<close> all have fields \<open>ID\<close> and \<open>Name\<close>.
\<close>

record Configuration =
  AccountID :: string
  AccessToken :: string
  BaseURL :: string

record HarvestClient =
  config :: Configuration

record Project =
  Project_ID :: int
  Project_Name :: string

record Task =
  Task_ID :: int
  Task_Name :: string

record Timer =
  Timer_ID :: int
  Timer_Notes :: string
  Timer_Hours :: "64 word"
  Timer_ProjectID :: int
  Timer_TaskID :: int
  Timer_IsRunning :: bool

record ListItem =
  ListItem_ID :: int
  ListItem_Name :: string

definition defaultBaseURL :: string where
  "defaultBaseURL = ''https://api.harvestapp.com/v2''"

definition NewHarvestClient :: "Configuration \<Rightarrow> HarvestClient" where
  "NewHarvestClient cfg =
     \<lparr>config = (if BaseURL cfg = [] then cfg\<lparr>BaseURL := defaultBaseURL\<rparr> else cfg)\<rparr>"

subsection \<open>Formatting with \<open>%d\<close>\<close>

fun digits :: "nat \<Rightarrow> string" where
  "digits n =
     (if n < 10 then [char_of (48 + n)]
      else digits (n div 10) @ [char_of (48 + n mod 10)])"

definition fmt_d :: "int \<Rightarrow> string" where
  "fmt_d i = (if i < 0 then CHR ''-'' # digits (nat (- i)) else digits (nat i))"

definition FilterValue :: "ListItem \<Rightarrow> string" where
  "FilterValue i = ListItem_Name i"

definition Title :: "ListItem \<Rightarrow> string" where
  "Title i = ListItem_Name i"

definition Description :: "ListItem \<Rightarrow> string" where
  "Description i = ''ID: '' @ fmt_d (ListItem_ID i)"

section \<open>The service client (lines 142-290)\<close>

text \<open>
  A request either fails in transport (\<open>err != nil\<close>, kept as the text of \<open>err.Error()\<close>)
  or yields a response with its \<open>IsError()\<close> flag, status code, body text and decoded
  result. An \<open>error\<close> is modelled by its message, the only thing the program reads of it.
\<close>

datatype 'a Response =
    RequestFailed string
  | Response bool int string 'a

text \<open>
  The decoded \<open>time_entries\<close> are the \<open>(id, name)\<close> pairs of their \<open>project\<close>
  (respectively \<open>task\<close>) objects. The first loop of \<open>GetProjects\<close> (lines 173-179) stores
  each entry under its id, overwriting what the map held for that id.
\<close>

definition projectMap :: "(int \<times> string) list \<Rightarrow> (int \<rightharpoonup> Project)" where
  "projectMap es =
     foldl (\<lambda>m (i, n). m(i \<mapsto> \<lparr>Project_ID = i, Project_Name = n\<rparr>)) Map.empty es"

definition taskMap :: "(int \<times> string) list \<Rightarrow> (int \<rightharpoonup> Task)" where
  "taskMap es =
     foldl (\<lambda>m (i, n). m(i \<mapsto> \<lparr>Task_ID = i, Task_Name = n\<rparr>)) Map.empty es"

text \<open>
  The second loop ranges over the map. Go leaves the order of that iteration open; it
  visits every key once. The order is therefore an argument of the model: a list \<open>ks\<close>
  of keys, admissible when it lists every key of the map exactly once.
\<close>

definition range_order :: "(int \<rightharpoonup> 'v) \<Rightarrow> int list \<Rightarrow> bool" where
  "range_order m ks \<longleftrightarrow> distinct ks \<and> set ks = dom m"

definition range_values :: "(int \<rightharpoonup> 'v) \<Rightarrow> int list \<Rightarrow> 'v list" where
  "range_values m ks = foldl (\<lambda>acc k. case m k of None \<Rightarrow> acc | Some v \<Rightarrow> acc @ [v]) [] ks"

definition GetProjects :: "(int \<times> string) list Response \<Rightarrow> int list \<Rightarrow> string + Project list" where
  "GetProjects resp ks =
     (case resp of
        RequestFailed err \<Rightarrow> Inl err
      | Response isError status body timeEntries \<Rightarrow>
          if isError then Inl ''Failed to fetch projects: <nil>''
          else Inr (range_values (projectMap timeEntries) ks))"

definition GetTasks :: "int \<Rightarrow> (int \<times> string) list Response \<Rightarrow> int list \<Rightarrow> string + Task list" where
  "GetTasks projectID resp ks =
     (case resp of
        RequestFailed err \<Rightarrow> Inl err
      | Response isError status body timeEntries \<Rightarrow>
          if isError then Inl (''API error: Status='' @ fmt_d status @ '', Body='' @ body)
          else Inr (range_values (taskMap timeEntries) ks))"

definition StartTimer :: "int \<Rightarrow> int \<Rightarrow> string \<Rightarrow> Timer Response \<Rightarrow> string + Timer" where
  "StartTimer projectID taskID notes resp =
     (case resp of
        RequestFailed err \<Rightarrow> Inl err
      | Response isError status body timerResp \<Rightarrow>
          if isError then Inl (''API error: Status='' @ fmt_d status @ '', Body='' @ body)
          else Inr \<lparr>Timer_ID = Timer_ID timerResp, Timer_Notes = Timer_Notes timerResp,
                    Timer_Hours = Timer_Hours timerResp,
                    Timer_ProjectID = Timer_ProjectID timerResp,
                    Timer_TaskID = Timer_TaskID timerResp,
                    Timer_IsRunning = Timer_IsRunning timerResp\<rparr>)"

text \<open>\<open>StopTimer\<close> returns an \<open>error\<close> or \<open>nil\<close>: \<open>Some\<close> message or \<open>None\<close>.\<close>

definition StopTimer :: "int \<Rightarrow> unit Response \<Rightarrow> string option" where
  "StopTimer timerID resp =
     (case resp of
        RequestFailed err \<Rightarrow> Some err
      | Response isError status body u \<Rightarrow>
          if isError then Some (''API error: Status='' @ fmt_d status @ '', Body='' @ body)
          else None)"

subsection \<open>What the specification says of the collapse\<close>

text \<open>
  The names an id may be given in a list of entries: the name of the first entry that
  carries the id, and the name of the last one.
\<close>

definition first_seen_name :: "(int \<times> string) list \<Rightarrow> int \<Rightarrow> string option" where
  "first_seen_name es i = map_of es i"

definition last_seen_name :: "(int \<times> string) list \<Rightarrow> int \<Rightarrow> string option" where
  "last_seen_name es i = map_of (rev es) i"

section \<open>The interaction engine (lines 82-98 and 292-476)\<close>

subsection \<open>Messages and commands\<close>

text \<open>
  \<open>tea.Msg\<close> is the union of the key and window messages of the framework, the five
  message structs of lines 325-331, and the messages the widgets send to themselves
  (\<open>WidgetMsg\<close>). A key is kept abstract; the toolkit below renders it with
  \<open>String()\<close>. The \<open>timer\<close> of \<open>startTimerMsg\<close> is a pointer that may be \<open>nil\<close>.
\<close>

datatype ('k, 'o) Msg =
    KeyMsg 'k
  | fetchProjectsMsg "Project list"
  | fetchTasksMsg "Task list"
  | startTimerMsg "Timer option"
  | stopTimerMsg bool
  | errorMsg string
  | WindowSizeMsg int int
  | WidgetMsg 'o

text \<open>
  A \<open>tea.Cmd\<close> is a closure run by the framework. The model names the closure by the
  function that builds it and its arguments; \<open>nil\<close> is \<open>None\<close>. \<open>WidgetCmd\<close> is a
  command handed back by a widget.
\<close>

datatype 'c Cmd =
    Quit
  | fetchProjects HarvestClient
  | fetchTasks HarvestClient int
  | startTimer HarvestClient int int string
  | stopTimer HarvestClient int
  | WidgetCmd 'c

text \<open>The four service operations among the commands.\<close>

fun is_operation :: "'c Cmd option \<Rightarrow> bool" where
  "is_operation (Some (fetchProjects c)) = True"
| "is_operation (Some (fetchTasks c p)) = True"
| "is_operation (Some (startTimer c p t n)) = True"
| "is_operation (Some (stopTimer c i)) = True"
| "is_operation _ = False"

text \<open>
  What each command closure returns once the request has been answered (lines 555-597):
  the answer of the service is the argument \<open>resp\<close>.
\<close>

definition fetchProjects_msg :: "(int \<times> string) list Response \<Rightarrow> int list \<Rightarrow> ('k, 'o) Msg" where
  "fetchProjects_msg resp ks =
     (case GetProjects resp ks of Inl err \<Rightarrow> errorMsg err | Inr ps \<Rightarrow> fetchProjectsMsg ps)"

definition fetchTasks_msg :: "int \<Rightarrow> (int \<times> string) list Response \<Rightarrow> int list \<Rightarrow> ('k, 'o) Msg" where
  "fetchTasks_msg projectID resp ks =
     (case GetTasks projectID resp ks of Inl err \<Rightarrow> errorMsg err | Inr ts \<Rightarrow> fetchTasksMsg ts)"

definition startTimer_msg :: "int \<Rightarrow> int \<Rightarrow> string \<Rightarrow> Timer Response \<Rightarrow> ('k, 'o) Msg" where
  "startTimer_msg projectID taskID notes resp =
     (case StartTimer projectID taskID notes resp of
        Inl err \<Rightarrow> errorMsg err
      | Inr timer \<Rightarrow> startTimerMsg (Some timer))"

definition stopTimer_msg :: "int \<Rightarrow> unit Response \<Rightarrow> ('k, 'o) Msg" where
  "stopTimer_msg timerID resp =
     (case StopTimer timerID resp of Some err \<Rightarrow> errorMsg err | None \<Rightarrow> stopTimerMsg True)"

subsection \<open>The widget toolkit\<close>

text \<open>
  The text input, the list, the key names and the styles belong to the libraries the
  program imports (bubbles, bubbletea, lipgloss). The engine is modelled over any
  implementation of the operations it calls on them: \<open>'ti\<close> is \<open>textinput.Model\<close>,
  \<open>'l\<close> is \<open>list.Model\<close>. A style is its \<open>Render\<close> function; \<open>fmt_2f\<close> is the
  formatting of a \<open>float64\<close> with \<open>%.2f\<close>.
\<close>

record ('k, 'o, 'ti, 'l, 'c) Toolkit =
  key_String :: "'k \<Rightarrow> string"
  textinput_New :: "'ti"
  textinput_Focus :: "'ti \<Rightarrow> 'ti"
  textinput_Focused :: "'ti \<Rightarrow> bool"
  textinput_Value :: "'ti \<Rightarrow> string"
  textinput_Update :: "'ti \<Rightarrow> ('k, 'o) Msg \<Rightarrow> 'ti \<times> 'c option"
  textinput_View :: "'ti \<Rightarrow> string"
  list_New :: "string \<Rightarrow> 'l"
  list_Index :: "'l \<Rightarrow> int"
  list_SetItems :: "'l \<Rightarrow> ListItem list \<Rightarrow> 'l"
  list_SetSize :: "'l \<Rightarrow> int \<Rightarrow> int \<Rightarrow> 'l"
  list_Update :: "'l \<Rightarrow> ('k, 'o) Msg \<Rightarrow> 'l \<times> 'c option"
  list_View :: "'l \<Rightarrow> string"
  titleStyle :: "string \<Rightarrow> string"
  infoStyle :: "string \<Rightarrow> string"
  errorStyle :: "string \<Rightarrow> string"
  successStyle :: "string \<Rightarrow> string"
  docStyle :: "string \<Rightarrow> string"
  docStyle_GetFrameSize :: "int \<times> int"
  fmt_2f :: "64 word \<Rightarrow> string"

subsection \<open>The model\<close>

record ('ti, 'l) Model =
  harvestClient :: HarvestClient
  state :: string
  projects :: "Project list"
  tasks :: "Task list"
  selectedProject :: Project
  selectedTask :: Task
  ticketInput :: 'ti
  projectList :: 'l
  taskList :: 'l
  activeTimer :: "Timer option"
  error :: string
  success :: string
  quitting :: bool
  showHelp :: bool

text \<open>
  \<open>initialModel\<close> (lines 293-322). \<open>textinput_New\<close> stands for the input with its
  placeholder and width set, \<open>list_New title\<close> for a list configured under that title.
  The fields the literal leaves out take Go's zero values.
\<close>

definition initialModel ::
  "('k, 'o, 'ti, 'l, 'c) Toolkit \<Rightarrow> Configuration \<Rightarrow> ('ti, 'l) Model" where
  "initialModel lib cfg =
     \<lparr>harvestClient = NewHarvestClient cfg,
      state = ''loading_projects'',
      projects = [],
      tasks = [],
      selectedProject = \<lparr>Project_ID = 0, Project_Name = []\<rparr>,
      selectedTask = \<lparr>Task_ID = 0, Task_Name = []\<rparr>,
      ticketInput = textinput_Focus lib (textinput_New lib),
      projectList = list_New lib ''Select Project'',
      taskList = list_New lib ''Select Task'',
      activeTimer = None,
      error = [],
      success = [],
      quitting = False,
      showHelp = False\<rparr>"

definition Init :: "('ti, 'l) Model \<Rightarrow> 'c Cmd option" where
  "Init m = Some (fetchProjects (harvestClient m))"

subsection \<open>\<open>Update\<close> (lines 339-476)\<close>

text \<open>
  \<open>Update\<close> has a value receiver: it works on a copy of the model and returns it, which
  is the state passing of the definitions below. The text of a key, \<open>msg.String()\<close>, is
  \<open>key_String\<close> of the toolkit. The window sizes are subtracted as unbounded integers;
  the engine only hands the differences to the lists.
\<close>

text \<open>
  The tail of \<open>Update\<close> (lines 455-475), reached by every branch that does not return:
  the message is handed to the text input or to the list of the current screen. The two
  nested tests of lines 457-458 are written as one conjunction: when the first holds
  and the second does not, neither list test of lines 465-473 holds, and the result is
  the model as it is with no command. The command of a widget is kept as
  \<open>WidgetCmd\<close>.
\<close>

definition updateWidgets ::
  "('k, 'o, 'ti, 'l, 'c) Toolkit \<Rightarrow> ('ti, 'l) Model \<Rightarrow> ('k, 'o) Msg \<Rightarrow> ('ti, 'l) Model \<times> 'c Cmd option" where
  "updateWidgets lib m msg =
     (if state m = ''enter_details'' \<and> textinput_Focused lib (ticketInput m) then
        (case textinput_Update lib (ticketInput m) msg of
           (ti, cmd) \<Rightarrow> (m\<lparr>ticketInput := ti\<rparr>, map_option WidgetCmd cmd))
      else if state m = ''select_project'' then
        (case list_Update lib (projectList m) msg of
           (l, cmd) \<Rightarrow> (m\<lparr>projectList := l\<rparr>, map_option WidgetCmd cmd))
      else if state m = ''select_task'' then
        (case list_Update lib (taskList m) msg of
           (l, cmd) \<Rightarrow> (m\<lparr>taskList := l\<rparr>, map_option WidgetCmd cmd))
      else (m, None))"

text \<open>The \<open>"esc"\<close> case (lines 349-362).\<close>

definition Update_esc ::
  "('k, 'o, 'ti, 'l, 'c) Toolkit \<Rightarrow> ('ti, 'l) Model \<Rightarrow> ('k, 'o) Msg \<Rightarrow> ('ti, 'l) Model \<times> 'c Cmd option" where
  "Update_esc lib m msg =
     (if showHelp m then (m\<lparr>showHelp := False\<rparr>, None)
      else if state m = ''select_task'' then (m\<lparr>state := ''select_project''\<rparr>, None)
      else if state m = ''enter_details'' then (m\<lparr>state := ''select_task''\<rparr>, None)
      else updateWidgets lib m msg)"

text \<open>
  The \<open>"enter"\<close> case (lines 363-405). The index read from a list is a Go \<open>int\<close>; the
  slice is read only inside its bounds.
\<close>

definition Update_enter ::
  "('k, 'o, 'ti, 'l, 'c) Toolkit \<Rightarrow> ('ti, 'l) Model \<Rightarrow> ('k, 'o) Msg \<Rightarrow> ('ti, 'l) Model \<times> 'c Cmd option" where
  "Update_enter lib m0 msg =
     (let m = m0\<lparr>error := [], success := []\<rparr> in
      if state m = ''select_project'' then
        (if length (projects m) > 0 then
           (let idx = list_Index lib (projectList m) in
            if idx \<ge> 0 \<and> idx < int (length (projects m)) then
              (let m1 = m\<lparr>selectedProject := projects m ! nat idx\<rparr>;
                   m2 = m1\<lparr>state := ''loading_tasks''\<rparr>
               in (m2, Some (fetchTasks (harvestClient m2) (Project_ID (selectedProject m2)))))
            else updateWidgets lib m msg)
         else updateWidgets lib m msg)
      else if state m = ''select_task'' then
        (if length (tasks m) > 0 then
           (let idx = list_Index lib (taskList m) in
            if idx \<ge> 0 \<and> idx < int (length (tasks m)) then
              (let m1 = m\<lparr>selectedTask := tasks m ! nat idx\<rparr>;
                   m2 = m1\<lparr>state := ''enter_details''\<rparr>;
                   m3 = m2\<lparr>ticketInput := textinput_Focus lib (ticketInput m2)\<rparr>
               in (m3, None))
            else updateWidgets lib m msg)
         else updateWidgets lib m msg)
      else if state m = ''enter_details'' then
        (if textinput_Value lib (ticketInput m) = [] then
           (m\<lparr>error := ''Please enter ticket number and description''\<rparr>, None)
         else
           (case activeTimer m of
              Some t \<Rightarrow> (m, Some (stopTimer (harvestClient m) (Timer_ID t)))
            | None \<Rightarrow>
                (m, Some (startTimer (harvestClient m) (Project_ID (selectedProject m))
                            (Task_ID (selectedTask m)) (textinput_Value lib (ticketInput m))))))
      else updateWidgets lib m msg)"

definition Update ::
  "('k, 'o, 'ti, 'l, 'c) Toolkit \<Rightarrow> ('ti, 'l) Model \<Rightarrow> ('k, 'o) Msg \<Rightarrow> ('ti, 'l) Model \<times> 'c Cmd option" where
  "Update lib m msg =
     (case msg of
        KeyMsg k \<Rightarrow>
          (let s = key_String lib k in
           if s = ''ctrl+c'' \<or> s = ''q'' then (m\<lparr>quitting := True\<rparr>, Some Quit)
           else if s = ''?'' then (m\<lparr>showHelp := \<not> showHelp m\<rparr>, None)
           else if s = ''esc'' then Update_esc lib m msg
           else if s = ''enter'' then Update_enter lib m msg
           else updateWidgets lib m msg)
      | fetchProjectsMsg ps \<Rightarrow>
          (let m1 = m\<lparr>projects := ps\<rparr>;
               m2 = m1\<lparr>state := ''select_project''\<rparr>;
               items = map (\<lambda>p. \<lparr>ListItem_ID = Project_ID p, ListItem_Name = Project_Name p\<rparr>)
                         (projects m2);
               m3 = m2\<lparr>projectList := list_SetItems lib (projectList m2) items\<rparr>
           in updateWidgets lib m3 msg)
      | fetchTasksMsg ts \<Rightarrow>
          (let m1 = m\<lparr>tasks := ts\<rparr>;
               m2 = m1\<lparr>state := ''select_task''\<rparr>;
               items = map (\<lambda>t. \<lparr>ListItem_ID = Task_ID t, ListItem_Name = Task_Name t\<rparr>)
                         (tasks m2);
               m3 = m2\<lparr>taskList := list_SetItems lib (taskList m2) items\<rparr>
           in updateWidgets lib m3 msg)
      | startTimerMsg timer \<Rightarrow>
          (let m1 = m\<lparr>activeTimer := timer\<rparr>;
               m2 = m1\<lparr>success := ''Timer started for: '' @ textinput_Value lib (ticketInput m1)\<rparr>
           in updateWidgets lib m2 msg)
      | stopTimerMsg ok \<Rightarrow>
          (if ok then updateWidgets lib (m\<lparr>success := ''Timer stopped'', activeTimer := None\<rparr>) msg
           else updateWidgets lib (m\<lparr>error := ''Failed to stop timer''\<rparr>) msg)
      | errorMsg e \<Rightarrow>
          (let m1 = m\<lparr>error := e\<rparr>;
               m2 = (if state m1 = ''loading_projects'' \<or> state m1 = ''loading_tasks''
                     then m1\<lparr>state := ''error''\<rparr> else m1)
           in updateWidgets lib m2 msg)
      | WindowSizeMsg width height \<Rightarrow>
          (case docStyle_GetFrameSize lib of
             (h, v) \<Rightarrow>
               (let m1 = m\<lparr>projectList := list_SetSize lib (projectList m) (width - h) (height - v)\<rparr>;
                    m2 = m1\<lparr>taskList := list_SetSize lib (taskList m1) (width - h) (height - v)\<rparr>
                in updateWidgets lib m2 msg))
      | WidgetMsg x \<Rightarrow> updateWidgets lib m msg)"

subsection \<open>Runs of the engine\<close>

text \<open>
  The framework feeds \<open>Update\<close> one message at a time. \<open>after\<close> is the model reached
  on a list of messages, \<open>issued\<close> the command returned at each of them. The framework
  stops once \<open>tea.Quit\<close> has run; a run here goes on past it, so that a statement on
  all runs covers the runs of the framework.
\<close>

fun after ::
  "('k, 'o, 'ti, 'l, 'c) Toolkit \<Rightarrow> ('ti, 'l) Model \<Rightarrow> ('k, 'o) Msg list \<Rightarrow> ('ti, 'l) Model" where
  "after lib m [] = m"
| "after lib m (e # es) = after lib (fst (Update lib m e)) es"

fun issued ::
  "('k, 'o, 'ti, 'l, 'c) Toolkit \<Rightarrow> ('ti, 'l) Model \<Rightarrow> ('k, 'o) Msg list \<Rightarrow> 'c Cmd option list" where
  "issued lib m [] = []"
| "issued lib m (e # es) = snd (Update lib m e) # issued lib (fst (Update lib m e)) es"

section \<open>\<open>View\<close> (lines 478-553 and 599-617)\<close>

text \<open>Go strings are UTF-8: the characters outside ASCII are written as their bytes.\<close>

definition nl :: string where
  "nl = [CHR 0x0A]"

definition check_mark :: string where
  "check_mark = [CHR 0xE2, CHR 0x9C, CHR 0x93]"

definition arrows :: string where
  "arrows = [CHR 0xE2, CHR 0x86, CHR 0x91] @ ''/'' @ [CHR 0xE2, CHR 0x86, CHR 0x93]"

definition helpContent :: string where
  "helpContent =
     nl @
     ''KEYBOARD SHORTCUTS'' @ nl @
     ''  '' @ arrows @ ''          Navigate through options'' @ nl @
     ''  /            Filter the list (start typing to search)'' @ nl @
     ''  Enter        Select project/task or start/stop timer'' @ nl @
     ''  Esc          Go back to previous screen'' @ nl @
     ''  ?            Show/hide this help'' @ nl @
     ''  q or Ctrl+C  Quit the application'' @ nl @
     nl @
     ''WORKFLOW'' @ nl @
     ''  1. Select a project'' @ nl @
     ''  2. Select a task'' @ nl @
     ''  3. Enter ticket number and description (e.g., '' @ [CHR 0x22] @
       ''TICKET-123 - Add new feature'' @ [CHR 0x22] @ '')'' @ nl @
     ''  4. Press Enter to start the timer'' @ nl @
     ''  5. Press Enter again to stop the timer'' @ nl @
     nl @
     ''Your Harvest timer will sync automatically with the web interface.'' @ nl"

text \<open>The text of the current screen: the \<open>switch\<close> of lines 493-528.\<close>

definition screen :: "('k, 'o, 'ti, 'l, 'c) Toolkit \<Rightarrow> ('ti, 'l) Model \<Rightarrow> string" where
  "screen lib m =
     (if state m = ''loading_projects'' then ''Loading projects...'' @ nl
      else if state m = ''loading_tasks'' then ''Loading tasks...'' @ nl
      else if state m = ''select_project'' then list_View lib (projectList m)
      else if state m = ''select_task'' then
        ''Project: '' @ Project_Name (selectedProject m) @ nl @ nl @ list_View lib (taskList m)
      else if state m = ''enter_details'' then
        (let status =
               (case activeTimer m of
                  None \<Rightarrow> []
                | Some t \<Rightarrow>
                    infoStyle lib (nl @ ''Timer running: '' @ Timer_Notes t @ '' ('' @
                                   fmt_2f lib (Timer_Hours t) @ '' hours)''));
             actionKey = ''Enter'';
             actionText = (case activeTimer m of None \<Rightarrow> ''Start Timer'' | Some t \<Rightarrow> ''Stop Timer'')
         in ''Project: '' @ Project_Name (selectedProject m) @ nl @
            ''Task: '' @ Task_Name (selectedTask m) @ nl @ nl @
            textinput_View lib (ticketInput m) @ status @ nl @ nl @
            ''Press '' @ actionKey @ '' to '' @ actionText)
      else if state m = ''error'' then ''Error: '' @ error m @ nl @ ''Press q to quit.''
      else [])"

text \<open>The inline messages appended to the screen (lines 530-538).\<close>

definition inline_error :: "('k, 'o, 'ti, 'l, 'c) Toolkit \<Rightarrow> ('ti, 'l) Model \<Rightarrow> string" where
  "inline_error lib m =
     (if error m \<noteq> [] \<and> state m \<noteq> ''error''
      then nl @ nl @ errorStyle lib (''Error: '' @ error m) else [])"

definition inline_success :: "('k, 'o, 'ti, 'l, 'c) Toolkit \<Rightarrow> ('ti, 'l) Model \<Rightarrow> string" where
  "inline_success lib m =
     (if success m \<noteq> []
      then nl @ nl @ successStyle lib (check_mark @ '' '' @ success m) else [])"

definition footer :: "('ti, 'l) Model \<Rightarrow> string" where
  "footer m =
     (if state m = ''select_project'' \<or> state m = ''select_task'' then
        nl @ nl @ ''Press '' @ arrows @
        '' to navigate, / to filter, Enter to select, Esc to go back, ? for help, q to quit''
      else if state m = ''enter_details'' then
        nl @ nl @ ''Press Enter to start/stop timer, Esc to go back, ? for help, q to quit''
      else nl @ nl @ ''Press ? for help, q to quit'')"

definition View :: "('k, 'o, 'ti, 'l, 'c) Toolkit \<Rightarrow> ('ti, 'l) Model \<Rightarrow> string" where
  "View lib m =
     (if quitting m then ''Bye!'' @ nl
      else
        (let title = titleStyle lib (check_mark @ '' Harvest Timer TUI'') in
         if showHelp m then docStyle lib (title @ nl @ nl @ helpContent)
         else
           (let s = screen lib m @ inline_error lib m @ inline_success lib m;
                header = title @ nl @ nl
            in docStyle lib (header @ s @ footer m))))"

section \<open>A plain toolkit\<close>

text \<open>
  A small implementation of the toolkit, on which the engine can be run. A key is
  either a run of typed characters with its Alt and Paste flags, or a named key
  (\<open>enter\<close>, \<open>esc\<close>, \<open>backspace\<close>, \<open>up\<close>, \<open>down\<close>); its text is built as the
  framework builds \<open>String()\<close>: \<open>alt+\<close> before the text of a key pressed with Alt, and
  pasted characters between brackets. The text input is its value and its focus flag,
  with the cursor at the end: when focused, it appends the characters of every
  character key it is handed, also of several characters in one message, of a paste and
  of a key pressed with Alt (but for the bindings \<open>alt+b\<close>, \<open>alt+f\<close> and \<open>alt+d\<close>,
  which move or delete), and it deletes on \<open>backspace\<close>. A list is its cursor and its
  items, without a filter; setting its items keeps the cursor. A style renders a text as
  it is.
\<close>

datatype plain_key =
    KeyRunes string bool bool
  | KeyNamed string

fun plain_key_String :: "plain_key \<Rightarrow> string" where
  "plain_key_String (KeyRunes rs alt paste) =
     (if alt then ''alt+'' else []) @ (if paste then ''['' @ rs @ '']'' else rs)"
| "plain_key_String (KeyNamed n) = n"

definition plain_textinput_Update ::
  "string \<times> bool \<Rightarrow> (plain_key, unit) Msg \<Rightarrow> (string \<times> bool) \<times> unit option" where
  "plain_textinput_Update ti msg =
     (case msg of
        KeyMsg k \<Rightarrow>
          (if \<not> snd ti then (ti, None)
           else
             (case k of
                KeyNamed n \<Rightarrow>
                  if n = ''backspace'' then ((butlast (fst ti), snd ti), None) else (ti, None)
              | KeyRunes rs alt paste \<Rightarrow>
                  if alt \<and> (rs = ''b'' \<or> rs = ''f'' \<or> rs = ''d'') then (ti, None)
                  else ((fst ti @ rs, snd ti), None)))
      | _ \<Rightarrow> (ti, None))"

definition plain_list_Update ::
  "int \<times> ListItem list \<Rightarrow> (plain_key, unit) Msg \<Rightarrow> (int \<times> ListItem list) \<times> unit option" where
  "plain_list_Update l msg =
     (case msg of
        KeyMsg k \<Rightarrow>
          (if k = KeyNamed ''down'' \<and> fst l + 1 < int (length (snd l))
           then ((fst l + 1, snd l), None)
           else if k = KeyNamed ''up'' \<and> 0 < fst l then ((fst l - 1, snd l), None)
           else (l, None))
      | _ \<Rightarrow> (l, None))"

definition plain ::
  "(plain_key, unit, string \<times> bool, int \<times> ListItem list, unit) Toolkit" where
  "plain =
     \<lparr>key_String = plain_key_String,
      textinput_New = ([], False),
      textinput_Focus = (\<lambda>ti. (fst ti, True)),
      textinput_Focused = snd,
      textinput_Value = fst,
      textinput_Update = plain_textinput_Update,
      textinput_View = (\<lambda>ti. ''> '' @ fst ti),
      list_New = (\<lambda>title. (0, [])),
      list_Index = fst,
      list_SetItems = (\<lambda>l items. (fst l, items)),
      list_SetSize = (\<lambda>l w h. l),
      list_Update = plain_list_Update,
      list_View = (\<lambda>l. concat (map (\<lambda>i. Title i @ nl) (snd l))),
      titleStyle = (\<lambda>s. s),
      infoStyle = (\<lambda>s. s),
      errorStyle = (\<lambda>s. s),
      successStyle = (\<lambda>s. s),
      docStyle = (\<lambda>s. s),
      docStyle_GetFrameSize = (4, 2),
      fmt_2f = (\<lambda>w. ''0.00'')\<rparr>"

definition demo_config :: Configuration where
  "demo_config = \<lparr>AccountID = ''1'', AccessToken = ''t'', BaseURL = []\<rparr>"

section \<open>Notions used in the statements\<close>

text \<open>The two screens that show the task list or rest on a task chosen from it.\<close>

definition task_screen :: "string \<Rightarrow> bool" where
  "task_screen s \<longleftrightarrow> s = ''select_task'' \<or> s = ''enter_details''"

fun is_fetchTasksMsg :: "('k, 'o) Msg \<Rightarrow> bool" where
  "is_fetchTasksMsg (fetchTasksMsg ts) = True"
| "is_fetchTasksMsg _ = False"

section \<open>Concrete inputs\<close>

definition alpha :: Project where
  "alpha = \<lparr>Project_ID = 1, Project_Name = ''Alpha''\<rparr>"

definition build :: Task where
  "build = \<lparr>Task_ID = 10, Task_Name = ''Build''\<rparr>"

definition demo_timer :: Timer where
  "demo_timer =
     \<lparr>Timer_ID = 7, Timer_Notes = ''a'', Timer_Hours = 0, Timer_ProjectID = 1,
      Timer_TaskID = 10, Timer_IsRunning = True\<rparr>"

definition demo_entries :: "(int \<times> string) list" where
  "demo_entries = [(1, ''Alpha''), (2, ''Gamma''), (1, ''Beta'')]"

text \<open>
  The model of the plain toolkit once the project \<open>alpha\<close> and the task \<open>build\<close> have
  been chosen: \<open>details_model_reached\<close> below shows the run that leads to it.
\<close>

definition details_model :: "(string \<times> bool, int \<times> ListItem list) Model" where
  "details_model =
     \<lparr>harvestClient = NewHarvestClient demo_config,
      state = ''enter_details'',
      projects = [alpha],
      tasks = [build],
      selectedProject = alpha,
      selectedTask = build,
      ticketInput = ([], True),
      projectList = (0, [\<lparr>ListItem_ID = 1, ListItem_Name = ''Alpha''\<rparr>]),
      taskList = (0, [\<lparr>ListItem_ID = 10, ListItem_Name = ''Build''\<rparr>]),
      activeTimer = None,
      error = [],
      success = [],
      quitting = False,
      showHelp = False\<rparr>"

text \<open>
  A text input that differs from the plain one on the keys whose text is \<open>q\<close> only: it
  would double the letter.
\<close>

definition doubling_textinput_Update ::
  "string \<times> bool \<Rightarrow> (plain_key, unit) Msg \<Rightarrow> (string \<times> bool) \<times> unit option" where
  "doubling_textinput_Update ti msg =
     (case msg of
        KeyMsg k \<Rightarrow>
          if plain_key_String k = ''q'' then ((fst ti @ ''qq'', snd ti), None)
          else plain_textinput_Update ti msg
      | _ \<Rightarrow> plain_textinput_Update ti msg)"

text \<open>
  Three more models of the plain toolkit: a timer runs and the notes read \<open>a\<close>; the same
  after the notes have been deleted; and the task list after going back from the details.
\<close>

definition running_model :: "(string \<times> bool, int \<times> ListItem list) Model" where
  "running_model =
     details_model\<lparr>ticketInput := (''a'', True), activeTimer := Some demo_timer,
                   success := ''Timer started for: a''\<rparr>"

definition cleared_model :: "(string \<times> bool, int \<times> ListItem list) Model" where
  "cleared_model = running_model\<lparr>ticketInput := ([], True)\<rparr>"

definition task_model :: "(string \<times> bool, int \<times> ListItem list) Model" where
  "task_model = details_model\<lparr>state := ''select_task''\<rparr>"

text \<open>Event lists of the plain toolkit, used as concrete runs.\<close>

definition reselect_run :: "(plain_key, unit) Msg list" where
  "reselect_run = [KeyMsg (KeyNamed ''enter''), fetchTasksMsg [build, build], KeyMsg (KeyNamed ''down'')]"

definition select_run :: "(plain_key, unit) Msg list" where
  "select_run = [fetchProjectsMsg [alpha], KeyMsg (KeyNamed ''enter'')]"

definition typing_run :: "(plain_key, unit) Msg list" where
  "typing_run =
     [KeyMsg (KeyRunes ''a'' False False), KeyMsg (KeyRunes ''q'' False False),
      KeyMsg (KeyRunes ''b'' False False)]"

text \<open>
  A timer is started with the notes \<open>a\<close>, and before the answer arrives the user goes
  back twice and selects the project again, so that tasks are loading.
\<close>

definition failed_start_run :: "(plain_key, unit) Msg list" where
  "failed_start_run =
     [fetchProjectsMsg [alpha], KeyMsg (KeyNamed ''enter''), fetchTasksMsg [build],
      KeyMsg (KeyNamed ''enter''), KeyMsg (KeyRunes ''a'' False False),
      KeyMsg (KeyNamed ''enter''), KeyMsg (KeyNamed ''esc''), KeyMsg (KeyNamed ''esc''),
      KeyMsg (KeyNamed ''enter'')]"

section \<open>The collapse of repeated identifiers\<close>

lemma foldl_project_lookup:
  "foldl (\<lambda>m (i, n). m(i \<mapsto> \<lparr>Project_ID = i, Project_Name = n\<rparr>)) m0 es k =
     (case map_of (rev es) k of
        None \<Rightarrow> m0 k
      | Some n \<Rightarrow> Some \<lparr>Project_ID = k, Project_Name = n\<rparr>)"
proof (induction es arbitrary: m0)
  case Nil
  show ?case by simp
next
  case (Cons e es)
  obtain i n where e: "e = (i, n)" by (cases e)
  have "foldl (\<lambda>m (i, n). m(i \<mapsto> \<lparr>Project_ID = i, Project_Name = n\<rparr>)) m0 (e # es) k =
        foldl (\<lambda>m (i, n). m(i \<mapsto> \<lparr>Project_ID = i, Project_Name = n\<rparr>))
          (m0(i \<mapsto> \<lparr>Project_ID = i, Project_Name = n\<rparr>)) es k"
    by (simp add: e)
  also have "\<dots> = (case map_of (rev es) k of
        None \<Rightarrow> (m0(i \<mapsto> \<lparr>Project_ID = i, Project_Name = n\<rparr>)) k
      | Some n \<Rightarrow> Some \<lparr>Project_ID = k, Project_Name = n\<rparr>)"
    by (rule Cons.IH)
  also have "\<dots> = (case map_of (rev (e # es)) k of
        None \<Rightarrow> m0 k
      | Some n \<Rightarrow> Some \<lparr>Project_ID = k, Project_Name = n\<rparr>)"
    by (simp add: e map_add_def split: option.splits)
  finally show ?case .
qed

lemma foldl_task_lookup:
  "foldl (\<lambda>m (i, n). m(i \<mapsto> \<lparr>Task_ID = i, Task_Name = n\<rparr>)) m0 es k =
     (case map_of (rev es) k of
        None \<Rightarrow> m0 k
      | Some n \<Rightarrow> Some \<lparr>Task_ID = k, Task_Name = n\<rparr>)"
proof (induction es arbitrary: m0)
  case Nil
  show ?case by simp
next
  case (Cons e es)
  obtain i n where e: "e = (i, n)" by (cases e)
  have "foldl (\<lambda>m (i, n). m(i \<mapsto> \<lparr>Task_ID = i, Task_Name = n\<rparr>)) m0 (e # es) k =
        foldl (\<lambda>m (i, n). m(i \<mapsto> \<lparr>Task_ID = i, Task_Name = n\<rparr>))
          (m0(i \<mapsto> \<lparr>Task_ID = i, Task_Name = n\<rparr>)) es k"
    by (simp add: e)
  also have "\<dots> = (case map_of (rev es) k of
        None \<Rightarrow> (m0(i \<mapsto> \<lparr>Task_ID = i, Task_Name = n\<rparr>)) k
      | Some n \<Rightarrow> Some \<lparr>Task_ID = k, Task_Name = n\<rparr>)"
    by (rule Cons.IH)
  also have "\<dots> = (case map_of (rev (e # es)) k of
        None \<Rightarrow> m0 k
      | Some n \<Rightarrow> Some \<lparr>Task_ID = k, Task_Name = n\<rparr>)"
    by (simp add: e map_add_def split: option.splits)
  finally show ?case .
qed

lemma projectMap_lookup:
  "projectMap es k = map_option (\<lambda>n. \<lparr>Project_ID = k, Project_Name = n\<rparr>) (last_seen_name es k)"
  by (simp add: projectMap_def last_seen_name_def foldl_project_lookup split: option.splits)

lemma taskMap_lookup:
  "taskMap es k = map_option (\<lambda>n. \<lparr>Task_ID = k, Task_Name = n\<rparr>) (last_seen_name es k)"
  by (simp add: taskMap_def last_seen_name_def foldl_task_lookup split: option.splits)

lemma last_seen_name_dom: "dom (last_seen_name es) = fst ` set es"
proof -
  have "last_seen_name es = map_of (rev es)"
    by (rule ext) (simp add: last_seen_name_def)
  then show ?thesis
    by (simp add: dom_map_of_conv_image_fst)
qed

lemma projectMap_dom: "dom (projectMap es) = fst ` set es"
  using last_seen_name_dom [of es] by (auto simp: dom_def projectMap_lookup)

lemma taskMap_dom: "dom (taskMap es) = fst ` set es"
  using last_seen_name_dom [of es] by (auto simp: dom_def taskMap_lookup)

lemma range_values_foldl:
  "foldl (\<lambda>acc k. case m k of None \<Rightarrow> acc | Some v \<Rightarrow> acc @ [v]) acc ks =
     acc @ List.map_filter m ks"
  by (induction ks arbitrary: acc) (simp_all add: List.map_filter_simps split: option.splits)

lemma range_values_map_filter: "range_values m ks = List.map_filter m ks"
  by (simp add: range_values_def range_values_foldl)

lemma range_values_in_dom:
  "set ks \<subseteq> dom m \<Longrightarrow> range_values m ks = map (\<lambda>k. the (m k)) ks"
  by (induction ks) (auto simp: range_values_map_filter List.map_filter_simps)

lemma range_values_projects:
  assumes "range_order (projectMap es) ks"
  shows "range_values (projectMap es) ks =
           map (\<lambda>k. \<lparr>Project_ID = k, Project_Name = the (last_seen_name es k)\<rparr>) ks"
proof -
  have sub: "set ks \<subseteq> dom (projectMap es)"
    using assms by (simp add: range_order_def)
  have "\<And>k. k \<in> set ks \<Longrightarrow>
          the (projectMap es k) = \<lparr>Project_ID = k, Project_Name = the (last_seen_name es k)\<rparr>"
  proof -
    fix k assume "k \<in> set ks"
    then have "k \<in> dom (last_seen_name es)"
      using sub by (simp add: projectMap_dom last_seen_name_dom subset_iff)
    then show "the (projectMap es k) = \<lparr>Project_ID = k, Project_Name = the (last_seen_name es k)\<rparr>"
      by (auto simp: projectMap_lookup)
  qed
  then show ?thesis
    by (simp add: range_values_in_dom [OF sub])
qed

lemma range_values_tasks:
  assumes "range_order (taskMap es) ks"
  shows "range_values (taskMap es) ks =
           map (\<lambda>k. \<lparr>Task_ID = k, Task_Name = the (last_seen_name es k)\<rparr>) ks"
proof -
  have sub: "set ks \<subseteq> dom (taskMap es)"
    using assms by (simp add: range_order_def)
  have "\<And>k. k \<in> set ks \<Longrightarrow>
          the (taskMap es k) = \<lparr>Task_ID = k, Task_Name = the (last_seen_name es k)\<rparr>"
  proof -
    fix k assume "k \<in> set ks"
    then have "k \<in> dom (last_seen_name es)"
      using sub by (simp add: taskMap_dom last_seen_name_dom subset_iff)
    then show "the (taskMap es k) = \<lparr>Task_ID = k, Task_Name = the (last_seen_name es k)\<rparr>"
      by (auto simp: taskMap_lookup)
  qed
  then show ?thesis
    by (simp add: range_values_in_dom [OF sub])
qed

text \<open>
  Claim C1, as the code has it. Whatever order the map is ranged over, the lists that
  \<open>GetProjects\<close> and \<open>GetTasks\<close> return on a successful response hold every id of the
  time entries exactly once, and the name kept for an id is the name of the \<^emph>\<open>last\<close>
  entry that carries it: a later entry overwrites the map's value for its id.
\<close>

theorem collapse_keeps_last_seen_name:
  assumes po: "range_order (projectMap pes) pks"
      and to: "range_order (taskMap tes) tks"
  shows "(\<exists>ps. GetProjects (Response False status body pes) pks = Inr ps
            \<and> distinct (map Project_ID ps)
            \<and> set (map Project_ID ps) = fst ` set pes
            \<and> (\<forall>p \<in> set ps. last_seen_name pes (Project_ID p) = Some (Project_Name p)))
       \<and> (\<exists>ts. GetTasks projectID (Response False status' body' tes) tks = Inr ts
            \<and> distinct (map Task_ID ts)
            \<and> set (map Task_ID ts) = fst ` set tes
            \<and> (\<forall>t \<in> set ts. last_seen_name tes (Task_ID t) = Some (Task_Name t)))"
proof (intro conjI)
  let ?ps = "range_values (projectMap pes) pks"
  have ids: "map Project_ID ?ps = pks"
    by (simp add: range_values_projects [OF po] comp_def)
  have names: "\<forall>p \<in> set ?ps. last_seen_name pes (Project_ID p) = Some (Project_Name p)"
  proof
    fix p assume "p \<in> set ?ps"
    then obtain k where k: "k \<in> set pks"
        and p: "p = \<lparr>Project_ID = k, Project_Name = the (last_seen_name pes k)\<rparr>"
      by (auto simp: range_values_projects [OF po])
    from k po have "k \<in> dom (last_seen_name pes)"
      by (simp add: range_order_def projectMap_dom last_seen_name_dom)
    then show "last_seen_name pes (Project_ID p) = Some (Project_Name p)"
      by (auto simp: p)
  qed
  show "\<exists>ps. GetProjects (Response False status body pes) pks = Inr ps
            \<and> distinct (map Project_ID ps)
            \<and> set (map Project_ID ps) = fst ` set pes
            \<and> (\<forall>p \<in> set ps. last_seen_name pes (Project_ID p) = Some (Project_Name p))"
  proof (intro exI conjI)
    show "GetProjects (Response False status body pes) pks = Inr ?ps"
      by (simp add: GetProjects_def)
    show "distinct (map Project_ID ?ps)"
      unfolding ids using po by (simp add: range_order_def)
    show "set (map Project_ID ?ps) = fst ` set pes"
      unfolding ids using po by (simp add: range_order_def projectMap_dom)
    show "\<forall>p \<in> set ?ps. last_seen_name pes (Project_ID p) = Some (Project_Name p)"
      by (rule names)
  qed
next
  let ?ts = "range_values (taskMap tes) tks"
  have ids: "map Task_ID ?ts = tks"
    by (simp add: range_values_tasks [OF to] comp_def)
  have names: "\<forall>t \<in> set ?ts. last_seen_name tes (Task_ID t) = Some (Task_Name t)"
  proof
    fix t assume "t \<in> set ?ts"
    then obtain k where k: "k \<in> set tks"
        and t: "t = \<lparr>Task_ID = k, Task_Name = the (last_seen_name tes k)\<rparr>"
      by (auto simp: range_values_tasks [OF to])
    from k to have "k \<in> dom (last_seen_name tes)"
      by (simp add: range_order_def taskMap_dom last_seen_name_dom)
    then show "last_seen_name tes (Task_ID t) = Some (Task_Name t)"
      by (auto simp: t)
  qed
  show "\<exists>ts. GetTasks projectID (Response False status' body' tes) tks = Inr ts
            \<and> distinct (map Task_ID ts)
            \<and> set (map Task_ID ts) = fst ` set tes
            \<and> (\<forall>t \<in> set ts. last_seen_name tes (Task_ID t) = Some (Task_Name t))"
  proof (intro exI conjI)
    show "GetTasks projectID (Response False status' body' tes) tks = Inr ?ts"
      by (simp add: GetTasks_def)
    show "distinct (map Task_ID ?ts)"
      unfolding ids using to by (simp add: range_order_def)
    show "set (map Task_ID ?ts) = fst ` set tes"
      unfolding ids using to by (simp add: range_order_def taskMap_dom)
    show "\<forall>t \<in> set ?ts. last_seen_name tes (Task_ID t) = Some (Task_Name t)"
      by (rule names)
  qed
qed

lemma demo_entries_project_order: "range_order (projectMap demo_entries) [2, 1]"
  by (auto simp: range_order_def projectMap_def demo_entries_def)

lemma demo_entries_task_order: "range_order (taskMap demo_entries) [2, 1]"
  by (auto simp: range_order_def taskMap_def demo_entries_def)

theorem collapse_keeps_last_seen_name_witness:
  "range_order (projectMap demo_entries) [2, 1]
   \<and> range_order (taskMap demo_entries) [2, 1]
   \<and> (\<exists>ps. GetProjects (Response False 200 [] demo_entries) [2, 1] = Inr ps
         \<and> distinct (map Project_ID ps)
         \<and> set (map Project_ID ps) = fst ` set demo_entries
         \<and> (\<forall>p \<in> set ps. last_seen_name demo_entries (Project_ID p) = Some (Project_Name p)))
   \<and> (\<exists>ts. GetTasks 1 (Response False 200 [] demo_entries) [2, 1] = Inr ts
         \<and> distinct (map Task_ID ts)
         \<and> set (map Task_ID ts) = fst ` set demo_entries
         \<and> (\<forall>t \<in> set ts. last_seen_name demo_entries (Task_ID t) = Some (Task_Name t)))"
proof (intro conjI)
  note r = collapse_keeps_last_seen_name
             [OF demo_entries_project_order demo_entries_task_order]
  show "range_order (projectMap demo_entries) [2, 1]"
    by (rule demo_entries_project_order)
  show "range_order (taskMap demo_entries) [2, 1]"
    by (rule demo_entries_task_order)
  show "\<exists>ps. GetProjects (Response False 200 [] demo_entries) [2, 1] = Inr ps
         \<and> distinct (map Project_ID ps)
         \<and> set (map Project_ID ps) = fst ` set demo_entries
         \<and> (\<forall>p \<in> set ps. last_seen_name demo_entries (Project_ID p) = Some (Project_Name p))"
    by (rule r [THEN conjunct1])
  show "\<exists>ts. GetTasks 1 (Response False 200 [] demo_entries) [2, 1] = Inr ts
         \<and> distinct (map Task_ID ts)
         \<and> set (map Task_ID ts) = fst ` set demo_entries
         \<and> (\<forall>t \<in> set ts. last_seen_name demo_entries (Task_ID t) = Some (Task_Name t))"
    by (rule r [THEN conjunct2])
qed

text \<open>
  Claim C1 as the specification words it (the first-seen name is kept) fails: of two
  entries with id 1, named Alpha and then Beta, both operations keep Beta.
\<close>

theorem collapse_first_seen_name_counterexample:
  "range_order (projectMap [(1, ''Alpha''), (1, ''Beta'')]) [1]
   \<and> GetProjects (Response False 200 [] [(1, ''Alpha''), (1, ''Beta'')]) [1]
       = Inr [\<lparr>Project_ID = 1, Project_Name = ''Beta''\<rparr>]
   \<and> range_order (taskMap [(1, ''Alpha''), (1, ''Beta'')]) [1]
   \<and> GetTasks 1 (Response False 200 [] [(1, ''Alpha''), (1, ''Beta'')]) [1]
       = Inr [\<lparr>Task_ID = 1, Task_Name = ''Beta''\<rparr>]
   \<and> first_seen_name [(1, ''Alpha''), (1, ''Beta'')] 1 = Some ''Alpha''"
  by (auto simp: range_order_def projectMap_def taskMap_def GetProjects_def GetTasks_def
        range_values_def first_seen_name_def)

section \<open>Single steps of the engine\<close>

lemma updateWidgets_frame:
  "state (fst (updateWidgets lib m msg)) = state m"
  "projects (fst (updateWidgets lib m msg)) = projects m"
  "tasks (fst (updateWidgets lib m msg)) = tasks m"
  "selectedProject (fst (updateWidgets lib m msg)) = selectedProject m"
  "selectedTask (fst (updateWidgets lib m msg)) = selectedTask m"
  "activeTimer (fst (updateWidgets lib m msg)) = activeTimer m"
  "error (fst (updateWidgets lib m msg)) = error m"
  "success (fst (updateWidgets lib m msg)) = success m"
  "quitting (fst (updateWidgets lib m msg)) = quitting m"
  "showHelp (fst (updateWidgets lib m msg)) = showHelp m"
  "harvestClient (fst (updateWidgets lib m msg)) = harvestClient m"
  by (simp_all add: updateWidgets_def split: prod.splits)

lemma widget_command_no_operation: "\<not> is_operation (map_option WidgetCmd c)"
  by (cases c) simp_all

lemma updateWidgets_no_operation: "\<not> is_operation (snd (updateWidgets lib m msg))"
  by (simp add: updateWidgets_def widget_command_no_operation split: prod.splits)

lemma Update_tasks:
  "tasks (fst (Update lib m msg)) = (case msg of fetchTasksMsg ts \<Rightarrow> ts | _ \<Rightarrow> tasks m)"
  by (cases msg)
     (simp_all add: Update_def Update_esc_def Update_enter_def Let_def updateWidgets_frame
        split: prod.splits option.splits)

lemma Update_tasks_other:
  "\<not> is_fetchTasksMsg msg \<Longrightarrow> tasks (fst (Update lib m msg)) = tasks m"
  by (cases msg) (simp_all add: Update_tasks)

lemma Update_projects:
  "projects (fst (Update lib m msg)) = (case msg of fetchProjectsMsg ps \<Rightarrow> ps | _ \<Rightarrow> projects m)"
  by (cases msg)
     (simp_all add: Update_def Update_esc_def Update_enter_def Let_def updateWidgets_frame
        split: prod.splits option.splits)

lemma Update_enters_task_screen:
  assumes "\<not> task_screen (state m)"
      and "task_screen (state (fst (Update lib m msg)))"
  shows "\<exists>ts. msg = fetchTasksMsg ts"
  using assms
  by (cases msg)
     (auto simp: task_screen_def Update_def Update_esc_def Update_enter_def Let_def
        updateWidgets_frame split: prod.splits option.splits if_splits)

lemma Update_fetchTasks_needs_projects:
  assumes "snd (Update lib m msg) = Some (fetchTasks c p)"
  shows "projects m \<noteq> []"
proof -
  have w: "snd (updateWidgets lib m' msg) \<noteq> Some (fetchTasks c p)" for m'
    using updateWidgets_no_operation [of lib m' msg] by auto
  show ?thesis using assms w
    by (cases msg)
       (auto simp: Update_def Update_esc_def Update_enter_def Let_def
          split: prod.splits option.splits if_splits)
qed

lemma reselect_step:
  assumes "key_String lib k' = ''enter''"
      and "0 \<le> list_Index lib (projectList m)"
      and "list_Index lib (projectList m) < int (length (projects m))"
  shows "Update lib (m\<lparr>state := ''select_project''\<rparr>) (KeyMsg k') =
            (m\<lparr>error := [], success := [],
               selectedProject := projects m ! nat (list_Index lib (projectList m)),
               state := ''loading_tasks''\<rparr>,
             Some (fetchTasks (harvestClient m)
                     (Project_ID (projects m ! nat (list_Index lib (projectList m))))))"
proof -
  have ne: "projects m \<noteq> []"
    using assms by auto
  have "Update lib (m\<lparr>state := ''select_project''\<rparr>) (KeyMsg k') =
          Update_enter lib (m\<lparr>state := ''select_project''\<rparr>) (KeyMsg k')"
    using assms(1) by (simp add: Update_def)
  also have "\<dots> = (m\<lparr>error := [], success := [],
               selectedProject := projects m ! nat (list_Index lib (projectList m)),
               state := ''loading_tasks''\<rparr>,
             Some (fetchTasks (harvestClient m)
                     (Project_ID (projects m ! nat (list_Index lib (projectList m))))))"
    using assms(2,3) ne by (simp add: Update_enter_def Let_def)
  finally show ?thesis .
qed

section \<open>Runs\<close>

lemma after_snoc: "after lib m (es @ [e]) = fst (Update lib (after lib m es) e)"
  by (induction es arbitrary: m) simp_all

lemma issued_nth:
  "i < length evs \<Longrightarrow>
     issued lib m evs ! i = snd (Update lib (after lib m (take i evs)) (evs ! i))"
proof (induction evs arbitrary: m i)
  case Nil
  then show ?case by simp
next
  case (Cons e evs)
  then show ?case by (cases i) simp_all
qed

lemma task_screen_needs_fresh_tasks:
  assumes "\<not> task_screen (state m)"
      and "task_screen (state (after lib m evs))"
  shows "\<exists>pre ts post. evs = pre @ fetchTasksMsg ts # post
           \<and> list_all (\<lambda>e. \<not> is_fetchTasksMsg e) post
           \<and> tasks (after lib m evs) = ts"
  using assms
proof (induction evs rule: rev_induct)
  case Nil
  then show ?case by simp
next
  case (snoc e evs)
  show ?case
  proof (cases "is_fetchTasksMsg e")
    case True
    then obtain ts where e: "e = fetchTasksMsg ts"
      by (cases e) simp_all
    have "tasks (after lib m (evs @ [e])) = ts"
      by (simp add: after_snoc Update_tasks e)
    then show ?thesis
      using e by (intro exI [of _ evs] exI [of _ ts] exI [of _ "[]"]) simp
  next
    case False
    have "task_screen (state (after lib m evs))"
    proof (rule ccontr)
      assume "\<not> task_screen (state (after lib m evs))"
      then have "\<exists>ts. e = fetchTasksMsg ts"
        using snoc.prems(2) Update_enters_task_screen [of "after lib m evs" lib e]
        by (simp add: after_snoc)
      then show False using False by auto
    qed
    then obtain pre ts post where evs: "evs = pre @ fetchTasksMsg ts # post"
        and post: "list_all (\<lambda>e. \<not> is_fetchTasksMsg e) post"
        and ts: "tasks (after lib m evs) = ts"
      using snoc.IH snoc.prems(1) by blast
    have "tasks (after lib m (evs @ [e])) = ts"
      using False ts by (simp add: after_snoc Update_tasks_other)
    then show ?thesis
      using evs post False
      by (intro exI [of _ pre] exI [of _ ts] exI [of _ "post @ [e]"]) simp
  qed
qed

lemma projects_after:
  assumes "projects (after lib m evs) \<noteq> []"
  shows "projects m \<noteq> [] \<or> (\<exists>ps. ps \<noteq> [] \<and> fetchProjectsMsg ps \<in> set evs)"
  using assms
proof (induction evs arbitrary: m)
  case Nil
  then show ?case by simp
next
  case (Cons e evs)
  from Cons.IH [of "fst (Update lib m e)"] Cons.prems
  have "projects (fst (Update lib m e)) \<noteq> []
          \<or> (\<exists>ps. ps \<noteq> [] \<and> fetchProjectsMsg ps \<in> set evs)"
    by simp
  then show ?case
  proof
    assume p: "projects (fst (Update lib m e)) \<noteq> []"
    show ?thesis
    proof (cases e)
      case (fetchProjectsMsg ps)
      then show ?thesis using p by (auto simp: Update_projects)
    qed (use p in \<open>simp_all add: Update_projects\<close>)
  next
    assume "\<exists>ps. ps \<noteq> [] \<and> fetchProjectsMsg ps \<in> set evs"
    then show ?thesis by auto
  qed
qed

section \<open>The concrete models are reached\<close>

lemmas plain_engine =
  initialModel_def plain_def Update_def Update_enter_def Update_esc_def updateWidgets_def
  plain_textinput_Update_def plain_list_Update_def Let_def

lemmas demo_models =
  details_model_def running_model_def cleared_model_def task_model_def alpha_def build_def

lemma details_model_reached:
  "after plain (initialModel plain demo_config)
     [fetchProjectsMsg [alpha], KeyMsg (KeyNamed ''enter''), fetchTasksMsg [build], KeyMsg (KeyNamed ''enter'')]
   = details_model"
  by (simp add: plain_engine demo_models)

lemma running_model_reached:
  "after plain details_model [KeyMsg (KeyRunes ''a'' False False), KeyMsg (KeyNamed ''enter''), startTimerMsg (Some demo_timer)]
   = running_model"
  by (simp add: plain_engine demo_models)

lemma cleared_model_reached:
  "after plain running_model [KeyMsg (KeyNamed ''backspace'')] = cleared_model"
  by (simp add: plain_engine demo_models)

lemma task_model_reached:
  "after plain details_model [KeyMsg (KeyNamed ''esc'')] = task_model"
  by (simp add: plain_engine demo_models)

section \<open>Confirming in the details screen\<close>




text \<open>
  Claim C5. In \<open>enter_details\<close>, the confirm key with an empty notes field issues no
  command (so no \<open>startTimer\<close>), leaves \<open>activeTimer\<close> and the state as they are, and
  sets the validation message, which \<open>View\<close> draws under the screen. This holds with
  no active timer, as the claim says, and with one as well.
\<close>

theorem confirm_empty_notes:
  assumes "state m = ''enter_details''"
      and "key_String lib k = ''enter''"
      and "textinput_Value lib (ticketInput m) = []"
      and "m' = fst (Update lib m (KeyMsg k))"
  shows "Update lib m (KeyMsg k) =
           (m\<lparr>error := ''Please enter ticket number and description'', success := []\<rparr>, None)
       \<and> \<not> is_operation (snd (Update lib m (KeyMsg k)))
       \<and> activeTimer m' = activeTimer m
       \<and> state m' = ''enter_details''
       \<and> inline_error lib m' =
           nl @ nl @ errorStyle lib (''Error: Please enter ticket number and description'')
       \<and> (\<not> quitting m \<and> \<not> showHelp m \<longrightarrow>
            View lib m' =
              docStyle lib (titleStyle lib (check_mark @ '' Harvest Timer TUI'') @ nl @ nl @
                screen lib m' @
                nl @ nl @ errorStyle lib (''Error: Please enter ticket number and description'') @
                footer m'))"
  using assms
  by (simp add: Update_def Update_enter_def inline_error_def inline_success_def View_def)

theorem confirm_empty_notes_witness:
  "state details_model = ''enter_details''
   \<and> activeTimer details_model = None
   \<and> key_String plain (KeyNamed ''enter'') = ''enter''
   \<and> textinput_Value plain (ticketInput details_model) = []
   \<and> \<not> quitting details_model
   \<and> \<not> showHelp details_model
   \<and> Update plain details_model (KeyMsg (KeyNamed ''enter'')) =
       (details_model\<lparr>error := ''Please enter ticket number and description'', success := []\<rparr>,
        None)
   \<and> \<not> is_operation (snd (Update plain details_model (KeyMsg (KeyNamed ''enter''))))
   \<and> activeTimer (fst (Update plain details_model (KeyMsg (KeyNamed ''enter'')))) = activeTimer details_model
   \<and> state (fst (Update plain details_model (KeyMsg (KeyNamed ''enter'')))) = ''enter_details''
   \<and> View plain (fst (Update plain details_model (KeyMsg (KeyNamed ''enter'')))) =
       docStyle plain (titleStyle plain (check_mark @ '' Harvest Timer TUI'') @ nl @ nl @
         screen plain (fst (Update plain details_model (KeyMsg (KeyNamed ''enter'')))) @
         nl @ nl @ errorStyle plain (''Error: Please enter ticket number and description'') @
         footer (fst (Update plain details_model (KeyMsg (KeyNamed ''enter'')))))"
proof -
  have h1: "state details_model = ''enter_details''"
    by (simp add: demo_models)
  have h2: "key_String plain (KeyNamed ''enter'') = ''enter''"
    by (simp add: plain_def)
  have h3: "textinput_Value plain (ticketInput details_model) = []"
    by (simp add: demo_models plain_def)
  have h4: "activeTimer details_model = None"
    by (simp add: demo_models)
  have h5: "\<not> quitting details_model"
    by (simp add: demo_models)
  have h6: "\<not> showHelp details_model"
    by (simp add: demo_models)
  note r = confirm_empty_notes [OF h1 h2 h3 refl]
  note r2 = r [THEN conjunct2]
  note r3 = r2 [THEN conjunct2]
  note r4 = r3 [THEN conjunct2]
  note r5 = r4 [THEN conjunct2]
  note c6 = r5 [THEN conjunct2, THEN mp, OF conjI [OF h5 h6]]
  show ?thesis
    by (intro conjI h1 h2 h3 h4 h5 h6 r [THEN conjunct1] r2 [THEN conjunct1]
          r3 [THEN conjunct1] r4 [THEN conjunct1] c6)
qed

section \<open>Going back from the task list\<close>

text \<open>
  Claim C3, as the code has it. The back key in \<open>select_task\<close> (with the help overlay
  closed) changes the state to \<open>select_project\<close> and nothing else: the task list stays
  in the model. It is not used again. Selecting a project issues \<open>fetchTasks\<close> for it, and
  on every run from there, when the engine is again on a screen of the task list, a
  \<open>fetchTasksMsg\<close> has arrived since the return and the task list is the one of the
  last such message.
\<close>

theorem back_keeps_tasks_and_reselect_refetches:
  assumes "state m = ''select_task''"
      and "\<not> showHelp m"
      and "key_String lib k = ''esc''"
  shows "Update lib m (KeyMsg k) = (m\<lparr>state := ''select_project''\<rparr>, None)
       \<and> tasks (fst (Update lib m (KeyMsg k))) = tasks m
       \<and> (key_String lib k' = ''enter''
            \<and> 0 \<le> list_Index lib (projectList m)
            \<and> list_Index lib (projectList m) < int (length (projects m)) \<longrightarrow>
          Update lib (fst (Update lib m (KeyMsg k))) (KeyMsg k') =
            (m\<lparr>error := [], success := [],
               selectedProject := projects m ! nat (list_Index lib (projectList m)),
               state := ''loading_tasks''\<rparr>,
             Some (fetchTasks (harvestClient m)
                     (Project_ID (projects m ! nat (list_Index lib (projectList m)))))))
       \<and> (task_screen (state (after lib m (KeyMsg k # evs))) \<longrightarrow>
            (\<exists>pre ts post. evs = pre @ fetchTasksMsg ts # post
               \<and> list_all (\<lambda>e. \<not> is_fetchTasksMsg e) post
               \<and> tasks (after lib m (KeyMsg k # evs)) = ts))"
proof (intro conjI impI)
  show step: "Update lib m (KeyMsg k) = (m\<lparr>state := ''select_project''\<rparr>, None)"
    using assms by (simp add: Update_def Update_esc_def)
  show "tasks (fst (Update lib m (KeyMsg k))) = tasks m"
    by (simp add: step)
  show "Update lib (fst (Update lib m (KeyMsg k))) (KeyMsg k') =
            (m\<lparr>error := [], success := [],
               selectedProject := projects m ! nat (list_Index lib (projectList m)),
               state := ''loading_tasks''\<rparr>,
             Some (fetchTasks (harvestClient m)
                     (Project_ID (projects m ! nat (list_Index lib (projectList m))))))"
    if sel: "key_String lib k' = ''enter''
            \<and> 0 \<le> list_Index lib (projectList m)
            \<and> list_Index lib (projectList m) < int (length (projects m))"
  proof -
    from sel have a: "key_String lib k' = ''enter''"
        and b: "0 \<le> list_Index lib (projectList m)"
        and c: "list_Index lib (projectList m) < int (length (projects m))"
      by simp_all
    show ?thesis
      by (simp only: step fst_conv reselect_step [OF a b c])
  qed
  assume "task_screen (state (after lib m (KeyMsg k # evs)))"
  then have "task_screen (state (after lib (m\<lparr>state := ''select_project''\<rparr>) evs))"
    by (simp add: step)
  moreover have "\<not> task_screen (state (m\<lparr>state := ''select_project''\<rparr>))"
    by (simp add: task_screen_def)
  ultimately show "\<exists>pre ts post. evs = pre @ fetchTasksMsg ts # post
               \<and> list_all (\<lambda>e. \<not> is_fetchTasksMsg e) post
               \<and> tasks (after lib m (KeyMsg k # evs)) = ts"
    using task_screen_needs_fresh_tasks [of "m\<lparr>state := ''select_project''\<rparr>" lib evs]
    by (simp add: step)
qed

theorem back_keeps_tasks_and_reselect_refetches_witness:
  "state task_model = ''select_task''
   \<and> \<not> showHelp task_model
   \<and> key_String plain (KeyNamed ''esc'') = ''esc''
   \<and> key_String plain (KeyNamed ''enter'') = ''enter''
   \<and> 0 \<le> list_Index plain (projectList task_model)
   \<and> list_Index plain (projectList task_model) < int (length (projects task_model))
   \<and> task_screen (state (after plain task_model
        (KeyMsg (KeyNamed ''esc'') # reselect_run)))
   \<and> Update plain task_model (KeyMsg (KeyNamed ''esc'')) = (task_model\<lparr>state := ''select_project''\<rparr>, None)
   \<and> snd (Update plain (fst (Update plain task_model (KeyMsg (KeyNamed ''esc'')))) (KeyMsg (KeyNamed ''enter''))) =
       Some (fetchTasks (harvestClient task_model) 1)
   \<and> (\<exists>pre ts post.
         reselect_run = pre @ fetchTasksMsg ts # post
         \<and> list_all (\<lambda>e. \<not> is_fetchTasksMsg e) post
         \<and> tasks (after plain task_model
              (KeyMsg (KeyNamed ''esc'') # reselect_run)) = ts)"
proof -
  have h1: "state task_model = ''select_task''"
    by (simp add: demo_models)
  have h2: "\<not> showHelp task_model"
    by (simp add: demo_models)
  have h3: "key_String plain (KeyNamed ''esc'') = ''esc''"
    by (simp add: plain_def)
  have h4: "key_String plain (KeyNamed ''enter'') = ''enter''
              \<and> 0 \<le> list_Index plain (projectList task_model)
              \<and> list_Index plain (projectList task_model) < int (length (projects task_model))"
    by (simp add: demo_models plain_def)
  have h5: "task_screen (state (after plain task_model
        (KeyMsg (KeyNamed ''esc'') # reselect_run)))"
    by (simp add: plain_engine demo_models task_screen_def reselect_run_def)
  note r = back_keeps_tasks_and_reselect_refetches
             [OF h1 h2 h3, of "KeyNamed ''enter''" reselect_run]
  note r2 = r [THEN conjunct2, THEN conjunct2]
  have c1: "Update plain task_model (KeyMsg (KeyNamed ''esc'')) = (task_model\<lparr>state := ''select_project''\<rparr>, None)"
    by (rule r [THEN conjunct1])
  have "Update plain (fst (Update plain task_model (KeyMsg (KeyNamed ''esc'')))) (KeyMsg (KeyNamed ''enter'')) =
            (task_model\<lparr>error := [], success := [],
               selectedProject := projects task_model ! nat (list_Index plain (projectList task_model)),
               state := ''loading_tasks''\<rparr>,
             Some (fetchTasks (harvestClient task_model)
                     (Project_ID (projects task_model ! nat (list_Index plain (projectList task_model))))))"
    by (rule r2 [THEN conjunct1, THEN mp, OF h4])
  then have c3: "snd (Update plain (fst (Update plain task_model (KeyMsg (KeyNamed ''esc'')))) (KeyMsg (KeyNamed ''enter''))) =
       Some (fetchTasks (harvestClient task_model) 1)"
    by (simp add: demo_models plain_def)
  have c4: "\<exists>pre ts post.
         reselect_run = pre @ fetchTasksMsg ts # post
         \<and> list_all (\<lambda>e. \<not> is_fetchTasksMsg e) post
         \<and> tasks (after plain task_model
              (KeyMsg (KeyNamed ''esc'') # reselect_run)) = ts"
    by (rule r2 [THEN conjunct2, THEN mp, OF h5])
  show ?thesis
    by (intro conjI h1 h2 h3 h4 [THEN conjunct1] h4 [THEN conjunct2, THEN conjunct1]
          h4 [THEN conjunct2, THEN conjunct2] h5 c1 c3 c4)
qed

text \<open>
  Claim C3 as the specification words it (the task list is discarded) fails: after the
  back key the model still holds the task list fetched for the project left behind,
  and the list widget still holds its items.
\<close>

theorem back_discards_tasks_counterexample:
  "after plain (initialModel plain demo_config)
     [fetchProjectsMsg [alpha], KeyMsg (KeyNamed ''enter''), fetchTasksMsg [build], KeyMsg (KeyNamed ''enter''),
      KeyMsg (KeyNamed ''esc'')] = task_model
   \<and> state task_model = ''select_task''
   \<and> tasks task_model = [build]
   \<and> state (fst (Update plain task_model (KeyMsg (KeyNamed ''esc'')))) = ''select_project''
   \<and> tasks (fst (Update plain task_model (KeyMsg (KeyNamed ''esc'')))) = [build]
   \<and> taskList (fst (Update plain task_model (KeyMsg (KeyNamed ''esc'')))) =
       (0, [\<lparr>ListItem_ID = 10, ListItem_Name = ''Build''\<rparr>])"
  by (simp add: plain_engine demo_models)

section \<open>Starting and stopping the timer\<close>

text \<open>
  Claim C4. When the client's \<open>StartTimer\<close> succeeds with a timer, the command delivers
  \<open>startTimerMsg\<close> with that timer, and after \<open>Update\<close> has taken the message
  \<open>activeTimer\<close> is set and is that timer. When \<open>StopTimer\<close> succeeds, the command
  delivers \<open>stopTimerMsg\<close> with \<open>success\<close> true, and after \<open>Update\<close> has taken it
  \<open>activeTimer\<close> is \<open>nil\<close>.
\<close>

theorem timer_set_on_start_cleared_on_stop:
  fixes lib :: "('k, 'o, 'ti, 'l, 'c) Toolkit"
  shows "(StartTimer projectID taskID notes resp = Inr timer \<longrightarrow>
            startTimer_msg projectID taskID notes resp = (startTimerMsg (Some timer) :: ('k, 'o) Msg)
            \<and> activeTimer (fst (Update lib m (startTimer_msg projectID taskID notes resp)))
                = Some timer)
       \<and> (StopTimer timerID resp' = None \<longrightarrow>
            stopTimer_msg timerID resp' = (stopTimerMsg True :: ('k, 'o) Msg)
            \<and> activeTimer (fst (Update lib m (stopTimer_msg timerID resp'))) = None)"
  by (simp add: startTimer_msg_def stopTimer_msg_def Update_def Let_def updateWidgets_frame)

theorem timer_set_on_start_cleared_on_stop_witness:
  "StartTimer 1 10 ''a'' (Response False 201 [] demo_timer) = Inr demo_timer
   \<and> activeTimer (fst (Update plain details_model
         (startTimer_msg 1 10 ''a'' (Response False 201 [] demo_timer)))) = Some demo_timer
   \<and> StopTimer 7 (Response False 200 [] ()) = None
   \<and> activeTimer (fst (Update plain details_model
         (stopTimer_msg 7 (Response False 200 [] ())))) = None"
proof -
  have h1: "StartTimer 1 10 ''a'' (Response False 201 [] demo_timer) = Inr demo_timer"
    by (simp add: StartTimer_def demo_timer_def)
  have h2: "StopTimer 7 (Response False 200 [] ()) = None"
    by (simp add: StopTimer_def)
  note r = timer_set_on_start_cleared_on_stop
             [of 1 10 "''a''" "Response False 201 [] demo_timer" demo_timer plain details_model
                 7 "Response False 200 [] ()"]
  show ?thesis
    by (intro conjI h1 h2 r [THEN conjunct1, THEN mp, OF h1, THEN conjunct2]
          r [THEN conjunct2, THEN mp, OF h2, THEN conjunct2])
qed

section \<open>Selecting\<close>

text \<open>
  Claim C6. On every list of messages fed to the engine from its initial model, a
  \<open>fetchTasks\<close> command is issued only after a \<open>fetchProjectsMsg\<close> with at least one
  project has been delivered: the message by which \<open>fetchProjects\<close> reports success.
\<close>

theorem no_fetchTasks_before_projects:
  assumes "i < length evs"
      and "issued lib (initialModel lib cfg) evs ! i = Some (fetchTasks c p)"
  shows "\<exists>ps. ps \<noteq> [] \<and> fetchProjectsMsg ps \<in> set (take i evs)"
proof -
  have "projects (after lib (initialModel lib cfg) (take i evs)) \<noteq> []"
    using assms Update_fetchTasks_needs_projects by (simp add: issued_nth) blast
  then show ?thesis
    using projects_after [of lib "initialModel lib cfg" "take i evs"]
    by (simp add: initialModel_def)
qed

theorem no_fetchTasks_before_projects_witness:
  "1 < length select_run
   \<and> issued plain (initialModel plain demo_config) select_run ! 1 =
       Some (fetchTasks (NewHarvestClient demo_config) 1)
   \<and> (\<exists>ps. ps \<noteq> [] \<and> fetchProjectsMsg ps \<in> set (take 1 select_run))"
proof -
  have h1: "1 < length select_run"
    by (simp add: select_run_def)
  have h2: "issued plain (initialModel plain demo_config) select_run ! 1 =
       Some (fetchTasks (NewHarvestClient demo_config) 1)"
    by (simp add: select_run_def plain_engine alpha_def)
  show ?thesis
    by (intro conjI h1 h2 no_fetchTasks_before_projects [OF h1 h2])
qed

text \<open>
  Claim C8. In \<open>select_project\<close> or \<open>select_task\<close>, the select key with the highlighted
  index outside the list (which is so whenever the list is empty) leaves the state, the
  active timer, the selections and the lists as they are, and issues none of the four
  service operations: the key is only passed on to the list widget.
\<close>

theorem select_out_of_range_is_noop:
  assumes "key_String lib k = ''enter''"
      and "(state m = ''select_project''
              \<and> \<not> (0 \<le> list_Index lib (projectList m)
                    \<and> list_Index lib (projectList m) < int (length (projects m))))
         \<or> (state m = ''select_task''
              \<and> \<not> (0 \<le> list_Index lib (taskList m)
                    \<and> list_Index lib (taskList m) < int (length (tasks m))))"
      and "m' = fst (Update lib m (KeyMsg k))"
  shows "state m' = state m
       \<and> activeTimer m' = activeTimer m
       \<and> selectedProject m' = selectedProject m
       \<and> selectedTask m' = selectedTask m
       \<and> projects m' = projects m
       \<and> tasks m' = tasks m
       \<and> \<not> is_operation (snd (Update lib m (KeyMsg k)))"
proof -
  have "Update lib m (KeyMsg k) = updateWidgets lib (m\<lparr>error := [], success := []\<rparr>) (KeyMsg k)"
    using assms(1,2) by (auto simp: Update_def Update_enter_def Let_def)
  then show ?thesis
    using assms(3) by (simp add: updateWidgets_frame updateWidgets_no_operation)
qed

theorem select_out_of_range_is_noop_witness:
  "key_String plain (KeyNamed ''enter'') = ''enter''
   \<and> state (after plain (initialModel plain demo_config) [fetchProjectsMsg []]) = ''select_project''
   \<and> projects (after plain (initialModel plain demo_config) [fetchProjectsMsg []]) = []
   \<and> state (fst (Update plain (after plain (initialModel plain demo_config) [fetchProjectsMsg []])
         (KeyMsg (KeyNamed ''enter'')))) =
       state (after plain (initialModel plain demo_config) [fetchProjectsMsg []])
   \<and> activeTimer (fst (Update plain (after plain (initialModel plain demo_config) [fetchProjectsMsg []])
         (KeyMsg (KeyNamed ''enter'')))) =
       activeTimer (after plain (initialModel plain demo_config) [fetchProjectsMsg []])
   \<and> \<not> is_operation (snd (Update plain (after plain (initialModel plain demo_config)
         [fetchProjectsMsg []]) (KeyMsg (KeyNamed ''enter''))))"
proof -
  have h1: "key_String plain (KeyNamed ''enter'') = ''enter''"
    by (simp add: plain_def)
  have h2: "state (after plain (initialModel plain demo_config) [fetchProjectsMsg []]) = ''select_project''"
    by (simp add: plain_engine)
  have h3: "projects (after plain (initialModel plain demo_config) [fetchProjectsMsg []]) = []"
    by (simp add: plain_engine)
  have h4: "(state (after plain (initialModel plain demo_config) [fetchProjectsMsg []]) = ''select_project''
              \<and> \<not> (0 \<le> list_Index plain (projectList (after plain (initialModel plain demo_config) [fetchProjectsMsg []]))
                    \<and> list_Index plain (projectList (after plain (initialModel plain demo_config) [fetchProjectsMsg []]))
                        < int (length (projects (after plain (initialModel plain demo_config) [fetchProjectsMsg []])))))
         \<or> (state (after plain (initialModel plain demo_config) [fetchProjectsMsg []]) = ''select_task''
              \<and> \<not> (0 \<le> list_Index plain (taskList (after plain (initialModel plain demo_config) [fetchProjectsMsg []]))
                    \<and> list_Index plain (taskList (after plain (initialModel plain demo_config) [fetchProjectsMsg []]))
                        < int (length (tasks (after plain (initialModel plain demo_config) [fetchProjectsMsg []])))))"
    by (simp add: plain_engine)
  note r = select_out_of_range_is_noop [OF h1 h4 refl]
  show ?thesis
    by (intro conjI h1 h2 h3 r [THEN conjunct1] r [THEN conjunct2, THEN conjunct1]
          r [THEN conjunct2, THEN conjunct2, THEN conjunct2, THEN conjunct2, THEN conjunct2,
             THEN conjunct2])
qed

section \<open>The help overlay\<close>

text \<open>
  Claim C9. In every model, the help key changes the overlay flag and nothing else, and
  issues no command; pressed twice, it gives back the model it started from, so the
  state, the selections, the active timer and the notes input are as before.
\<close>

theorem help_toggle_twice:
  assumes "key_String lib k = ''?''"
  shows "Update lib m (KeyMsg k) = (m\<lparr>showHelp := \<not> showHelp m\<rparr>, None)
       \<and> Update lib (fst (Update lib m (KeyMsg k))) (KeyMsg k) = (m, None)"
  using assms by (simp add: Update_def)

theorem help_toggle_twice_witness:
  "key_String plain (KeyRunes ''?'' False False) = ''?''
   \<and> Update plain running_model (KeyMsg (KeyRunes ''?'' False False)) =
       (running_model\<lparr>showHelp := \<not> showHelp running_model\<rparr>, None)
   \<and> Update plain (fst (Update plain running_model (KeyMsg (KeyRunes ''?'' False False)))) (KeyMsg (KeyRunes ''?'' False False)) =
       (running_model, None)"
proof -
  have h: "key_String plain (KeyRunes ''?'' False False) = ''?''"
    by (simp add: plain_def)
  show ?thesis
    by (intro conjI h help_toggle_twice [OF h, THEN conjunct1]
          help_toggle_twice [OF h, THEN conjunct2])
qed

section \<open>Failures\<close>

text \<open>
  The failure texts that the client builds itself, on a response with \<open>IsError()\<close>, are
  never empty; the text of a transport failure is the one the HTTP library gives.
\<close>

lemma api_failure_texts_not_empty:
  "\<exists>e. e \<noteq> [] \<and> fetchProjects_msg (Response True status body es) ks = (errorMsg e :: ('k, 'o) Msg)"
  "\<exists>e. e \<noteq> [] \<and> fetchTasks_msg p (Response True status body es) ks = (errorMsg e :: ('k, 'o) Msg)"
  "\<exists>e. e \<noteq> [] \<and> startTimer_msg p t n (Response True status body r) = (errorMsg e :: ('k, 'o) Msg)"
  "\<exists>e. e \<noteq> [] \<and> stopTimer_msg i (Response True status body u) = (errorMsg e :: ('k, 'o) Msg)"
  by (simp_all add: fetchProjects_msg_def fetchTasks_msg_def startTimer_msg_def stopTimer_msg_def
        GetProjects_def GetTasks_def StartTimer_def StopTimer_def)

text \<open>
  Claim C7, as the code has it. A failure reaches the engine as an \<open>errorMsg\<close> with the
  failure's text, and what the engine does with it depends on the state in which it
  arrives, not on the operation that failed. When it arrives while projects or tasks are
  loading, the state becomes \<open>error\<close>, whose screen shows the text: this holds for a
  failed start or stop of the timer as well. When it arrives in any other state, the
  state stays as it is and the text is kept in the field that \<open>View\<close> draws under the
  screen, as \<open>Error:\<close> and the text; \<open>View\<close> draws that line for a text that is not
  empty, on the screen it draws when the program is not quitting and the help overlay
  is closed. In both cases the selected project, the selected task, the active timer and
  the two lists are kept and no service operation is issued. A \<open>stopTimerMsg\<close> without
  success is treated as a failure that stays in place.
\<close>

theorem failure_goes_to_error_or_stays:
  assumes "m' = fst (Update lib m (errorMsg e))"
      and "m'' = fst (Update lib m (stopTimerMsg False))"
  shows "(state m = ''loading_projects'' \<or> state m = ''loading_tasks'' \<longrightarrow> state m' = ''error'')
       \<and> (\<not> (state m = ''loading_projects'' \<or> state m = ''loading_tasks'') \<longrightarrow> state m' = state m)
       \<and> (state m' = ''error'' \<longrightarrow> screen lib m' = ''Error: '' @ e @ nl @ ''Press q to quit.'')
       \<and> (state m' \<noteq> ''error'' \<and> e \<noteq> [] \<longrightarrow>
            inline_error lib m' = nl @ nl @ errorStyle lib (''Error: '' @ e))
       \<and> (\<not> quitting m \<and> \<not> showHelp m \<longrightarrow>
            View lib m' =
              docStyle lib (titleStyle lib (check_mark @ '' Harvest Timer TUI'') @ nl @ nl @
                screen lib m' @ inline_error lib m' @ inline_success lib m' @ footer m'))
       \<and> error m' = e
       \<and> selectedProject m' = selectedProject m
       \<and> selectedTask m' = selectedTask m
       \<and> activeTimer m' = activeTimer m
       \<and> projects m' = projects m
       \<and> tasks m' = tasks m
       \<and> \<not> is_operation (snd (Update lib m (errorMsg e)))
       \<and> state m'' = state m
       \<and> error m'' = ''Failed to stop timer''
       \<and> selectedProject m'' = selectedProject m
       \<and> selectedTask m'' = selectedTask m
       \<and> activeTimer m'' = activeTimer m
       \<and> \<not> is_operation (snd (Update lib m (stopTimerMsg False)))"
proof -
  have u: "Update lib m (errorMsg e) =
             updateWidgets lib
               (if state m = ''loading_projects'' \<or> state m = ''loading_tasks''
                then m\<lparr>error := e, state := ''error''\<rparr> else m\<lparr>error := e\<rparr>) (errorMsg e)"
    by (simp add: Update_def Let_def)
  have s: "Update lib m (stopTimerMsg False) =
             updateWidgets lib (m\<lparr>error := ''Failed to stop timer''\<rparr>) (stopTimerMsg False)"
    by (simp add: Update_def)
  have frame: "state m' = (if state m = ''loading_projects'' \<or> state m = ''loading_tasks''
                            then ''error'' else state m)"
      "error m' = e" "selectedProject m' = selectedProject m" "selectedTask m' = selectedTask m"
      "activeTimer m' = activeTimer m" "projects m' = projects m" "tasks m' = tasks m"
      "quitting m' = quitting m" "showHelp m' = showHelp m"
    by (simp_all add: assms(1) u updateWidgets_frame)
  have frame'': "state m'' = state m" "error m'' = ''Failed to stop timer''"
      "selectedProject m'' = selectedProject m" "selectedTask m'' = selectedTask m"
      "activeTimer m'' = activeTimer m"
    by (simp_all add: assms(2) s updateWidgets_frame)
  have ops: "\<not> is_operation (snd (Update lib m (errorMsg e)))"
      "\<not> is_operation (snd (Update lib m (stopTimerMsg False)))"
    by (simp_all only: u s updateWidgets_no_operation not_False_eq_True)
  have scr: "state m' = ''error'' \<longrightarrow> screen lib m' = ''Error: '' @ e @ nl @ ''Press q to quit.''"
    by (simp add: screen_def frame(2))
  have inl: "state m' \<noteq> ''error'' \<and> e \<noteq> [] \<longrightarrow>
            inline_error lib m' = nl @ nl @ errorStyle lib (''Error: '' @ e)"
    by (simp add: inline_error_def frame(2))
  have view: "\<not> quitting m \<and> \<not> showHelp m \<longrightarrow>
            View lib m' =
              docStyle lib (titleStyle lib (check_mark @ '' Harvest Timer TUI'') @ nl @ nl @
                screen lib m' @ inline_error lib m' @ inline_success lib m' @ footer m')"
    by (simp add: View_def frame(8,9))
  show ?thesis
    using frame(1) by (intro conjI scr inl view frame(2-7) frame'' ops) simp_all
qed

theorem failure_goes_to_error_or_stays_witness:
  "\<not> (state running_model = ''loading_projects'' \<or> state running_model = ''loading_tasks'')
   \<and> state (fst (Update plain running_model (errorMsg ''boom''))) = state running_model
   \<and> state (fst (Update plain running_model (errorMsg ''boom''))) \<noteq> ''error''
   \<and> ''boom'' \<noteq> []
   \<and> inline_error plain (fst (Update plain running_model (errorMsg ''boom''))) =
       nl @ nl @ errorStyle plain (''Error: '' @ ''boom'')
   \<and> \<not> quitting running_model
   \<and> \<not> showHelp running_model
   \<and> View plain (fst (Update plain running_model (errorMsg ''boom''))) =
       docStyle plain (titleStyle plain (check_mark @ '' Harvest Timer TUI'') @ nl @ nl @
         screen plain (fst (Update plain running_model (errorMsg ''boom''))) @
         inline_error plain (fst (Update plain running_model (errorMsg ''boom''))) @
         inline_success plain (fst (Update plain running_model (errorMsg ''boom''))) @
         footer (fst (Update plain running_model (errorMsg ''boom''))))
   \<and> activeTimer (fst (Update plain running_model (errorMsg ''boom''))) = activeTimer running_model
   \<and> (state (initialModel plain demo_config) = ''loading_projects''
        \<or> state (initialModel plain demo_config) = ''loading_tasks'')
   \<and> state (fst (Update plain (initialModel plain demo_config) (errorMsg ''boom''))) = ''error''
   \<and> screen plain (fst (Update plain (initialModel plain demo_config) (errorMsg ''boom''))) =
       ''Error: '' @ ''boom'' @ nl @ ''Press q to quit.''"
proof -
  have h1: "\<not> (state running_model = ''loading_projects'' \<or> state running_model = ''loading_tasks'')"
    by (simp add: demo_models)
  have h2: "''boom'' \<noteq> []"
    by simp
  have h3: "\<not> quitting running_model"
    by (simp add: demo_models)
  have h4: "\<not> showHelp running_model"
    by (simp add: demo_models)
  have h5: "state (initialModel plain demo_config) = ''loading_projects''
        \<or> state (initialModel plain demo_config) = ''loading_tasks''"
    by (simp add: initialModel_def)
  note r = failure_goes_to_error_or_stays
             [where lib = plain and m = running_model and e = "''boom''", OF refl refl]
  note i = failure_goes_to_error_or_stays
             [where lib = plain and m = "initialModel plain demo_config" and e = "''boom''",
              OF refl refl]
  note r2 = r [THEN conjunct2]
  note r3 = r2 [THEN conjunct2]
  note r4 = r3 [THEN conjunct2]
  note r5 = r4 [THEN conjunct2]
  note r9 = r5 [THEN conjunct2, THEN conjunct2, THEN conjunct2, THEN conjunct2]
  have c2: "state (fst (Update plain running_model (errorMsg ''boom''))) = state running_model"
    by (rule r2 [THEN conjunct1, THEN mp, OF h1])
  have srm: "state running_model = ''enter_details''"
    by (simp add: demo_models)
  have c3: "state (fst (Update plain running_model (errorMsg ''boom''))) \<noteq> ''error''"
    unfolding c2 srm by simp
  have c4: "inline_error plain (fst (Update plain running_model (errorMsg ''boom''))) =
       nl @ nl @ errorStyle plain (''Error: '' @ ''boom'')"
    by (rule r4 [THEN conjunct1, THEN mp, OF conjI [OF c3 h2]])
  have i1: "state (fst (Update plain (initialModel plain demo_config) (errorMsg ''boom''))) = ''error''"
    by (rule i [THEN conjunct1, THEN mp, OF h5])
  show ?thesis
    by (intro conjI h1 c2 c3 h2 c4 h3 h4 r5 [THEN conjunct1, THEN mp, OF conjI [OF h3 h4]]
          r9 [THEN conjunct1] h5 i1
          i [THEN conjunct2, THEN conjunct2, THEN conjunct1, THEN mp, OF i1])
qed

text \<open>
  Claim C7 as the specification words it (a start or stop failure leaves the state in
  place) fails. In the plain toolkit the sixth message of \<open>failed_start_run\<close> issues
  \<open>startTimer\<close>; the user then goes back twice and selects the project again, so that
  tasks are loading when the start fails. The failure moves the state from
  \<open>loading_tasks\<close> to \<open>error\<close>.
\<close>

theorem start_failure_while_loading_counterexample:
  "issued plain (initialModel plain demo_config) failed_start_run ! 5 =
     Some (startTimer (NewHarvestClient demo_config) 1 10 ''a'')
   \<and> state (after plain (initialModel plain demo_config) failed_start_run) = ''loading_tasks''
   \<and> startTimer_msg 1 10 ''a'' (RequestFailed ''boom'') = (errorMsg ''boom'' :: (plain_key, unit) Msg)
   \<and> state (fst (Update plain (after plain (initialModel plain demo_config) failed_start_run)
         (startTimer_msg 1 10 ''a'' (RequestFailed ''boom'')))) = ''error''"
  by (simp add: failed_start_run_def plain_engine alpha_def build_def startTimer_msg_def
        StartTimer_def)

section \<open>The quit key and the notes\<close>

lemma updateWidgets_textinput_cong:
  assumes "f (ticketInput m) msg = textinput_Update lib (ticketInput m) msg"
  shows "updateWidgets (lib\<lparr>textinput_Update := f\<rparr>) m msg = updateWidgets lib m msg"
  using assms by (simp add: updateWidgets_def)

lemma Update_textinput_cong:
  assumes "\<And>ti msg. (\<forall>k. msg = KeyMsg k \<longrightarrow> key_String lib k \<noteq> ''q'')
             \<Longrightarrow> f ti msg = textinput_Update lib ti msg"
  shows "Update (lib\<lparr>textinput_Update := f\<rparr>) m msg = Update lib m msg"
proof (cases "\<exists>k. msg = KeyMsg k \<and> key_String lib k = ''q''")
  case True
  then show ?thesis by (auto simp: Update_def)
next
  case False
  then have "\<And>ti. f ti msg = textinput_Update lib ti msg"
    using assms by blast
  then have w: "\<And>m'. updateWidgets (lib\<lparr>textinput_Update := f\<rparr>) m' msg = updateWidgets lib m' msg"
    by (simp add: updateWidgets_textinput_cong)
  have esc: "\<And>m'. Update_esc (lib\<lparr>textinput_Update := f\<rparr>) m' msg = Update_esc lib m' msg"
    by (simp add: Update_esc_def w)
  have enter: "\<And>m'. Update_enter (lib\<lparr>textinput_Update := f\<rparr>) m' msg = Update_enter lib m' msg"
    by (simp add: Update_enter_def Let_def w split: option.splits)
  show ?thesis
    using w esc enter
    by (cases msg) (auto simp: Update_def Let_def split: prod.splits)
qed

text \<open>
  Claim C10, as the code has it. A key whose \<open>String()\<close> is exactly \<open>q\<close> makes
  \<open>Update\<close> set \<open>quitting\<close> and return \<open>tea.Quit\<close> at once, in every state: the text
  input is the one it was. The text input is never handed such a key: replace its
  \<open>Update\<close> by any function that agrees with it on every other message, and the engine
  reaches the same models and issues the same commands on every list of messages. A
  key with any other text than \<open>ctrl+c\<close>, \<open>q\<close>, \<open>?\<close>, \<open>esc\<close> and \<open>enter\<close> is handed
  to the focused text input in \<open>enter_details\<close>, whatever characters it carries: the
  notes then hold what the text input makes of it.
\<close>

theorem q_quits_before_text_input:
  "(key_String lib k = ''q'' \<longrightarrow>
       Update lib m (KeyMsg k) = (m\<lparr>quitting := True\<rparr>, Some Quit)
     \<and> ticketInput (fst (Update lib m (KeyMsg k))) = ticketInput m)
   \<and> ((\<forall>ti msg. (\<forall>k. msg = KeyMsg k \<longrightarrow> key_String lib k \<noteq> ''q'')
          \<longrightarrow> f ti msg = textinput_Update lib ti msg) \<longrightarrow>
       after (lib\<lparr>textinput_Update := f\<rparr>) m evs = after lib m evs
     \<and> issued (lib\<lparr>textinput_Update := f\<rparr>) m evs = issued lib m evs)
   \<and> (state m = ''enter_details'' \<and> textinput_Focused lib (ticketInput m)
        \<and> key_String lib k' \<noteq> ''ctrl+c'' \<and> key_String lib k' \<noteq> ''q''
        \<and> key_String lib k' \<noteq> ''?'' \<and> key_String lib k' \<noteq> ''esc''
        \<and> key_String lib k' \<noteq> ''enter'' \<longrightarrow>
       Update lib m (KeyMsg k') =
         (m\<lparr>ticketInput := fst (textinput_Update lib (ticketInput m) (KeyMsg k'))\<rparr>,
          map_option WidgetCmd (snd (textinput_Update lib (ticketInput m) (KeyMsg k')))))"
proof (intro conjI impI)
  assume "key_String lib k = ''q''"
  then show "Update lib m (KeyMsg k) = (m\<lparr>quitting := True\<rparr>, Some Quit)"
    by (simp add: Update_def)
  then show "ticketInput (fst (Update lib m (KeyMsg k))) = ticketInput m"
    by simp
next
  assume a: "\<forall>ti msg. (\<forall>k. msg = KeyMsg k \<longrightarrow> key_String lib k \<noteq> ''q'')
          \<longrightarrow> f ti msg = textinput_Update lib ti msg"
  have u: "\<And>m msg. Update (lib\<lparr>textinput_Update := f\<rparr>) m msg = Update lib m msg"
    by (rule Update_textinput_cong) (use a in blast)
  show "after (lib\<lparr>textinput_Update := f\<rparr>) m evs = after lib m evs"
    by (induction evs arbitrary: m) (simp_all add: u)
  show "issued (lib\<lparr>textinput_Update := f\<rparr>) m evs = issued lib m evs"
    by (induction evs arbitrary: m) (simp_all add: u)
next
  assume "state m = ''enter_details'' \<and> textinput_Focused lib (ticketInput m)
        \<and> key_String lib k' \<noteq> ''ctrl+c'' \<and> key_String lib k' \<noteq> ''q''
        \<and> key_String lib k' \<noteq> ''?'' \<and> key_String lib k' \<noteq> ''esc''
        \<and> key_String lib k' \<noteq> ''enter''"
  then show "Update lib m (KeyMsg k') =
         (m\<lparr>ticketInput := fst (textinput_Update lib (ticketInput m) (KeyMsg k'))\<rparr>,
          map_option WidgetCmd (snd (textinput_Update lib (ticketInput m) (KeyMsg k'))))"
    by (simp add: Update_def updateWidgets_def split: prod.splits)
qed

theorem q_quits_before_text_input_witness:
  "key_String plain (KeyRunes ''q'' False False) = ''q''
   \<and> state details_model = ''enter_details''
   \<and> textinput_Focused plain (ticketInput details_model)
   \<and> Update plain details_model (KeyMsg (KeyRunes ''q'' False False)) =
       (details_model\<lparr>quitting := True\<rparr>, Some Quit)
   \<and> ticketInput (fst (Update plain details_model (KeyMsg (KeyRunes ''q'' False False)))) =
       ticketInput details_model
   \<and> doubling_textinput_Update (ticketInput details_model) (KeyMsg (KeyRunes ''q'' False False))
       \<noteq> textinput_Update plain (ticketInput details_model) (KeyMsg (KeyRunes ''q'' False False))
   \<and> after (plain\<lparr>textinput_Update := doubling_textinput_Update\<rparr>) details_model typing_run
       = after plain details_model typing_run
   \<and> issued (plain\<lparr>textinput_Update := doubling_textinput_Update\<rparr>) details_model typing_run
       = issued plain details_model typing_run
   \<and> key_String plain (KeyRunes ''a'' False False) \<noteq> ''ctrl+c''
   \<and> key_String plain (KeyRunes ''a'' False False) \<noteq> ''q''
   \<and> key_String plain (KeyRunes ''a'' False False) \<noteq> ''?''
   \<and> key_String plain (KeyRunes ''a'' False False) \<noteq> ''esc''
   \<and> key_String plain (KeyRunes ''a'' False False) \<noteq> ''enter''
   \<and> Update plain details_model (KeyMsg (KeyRunes ''a'' False False)) =
       (details_model\<lparr>ticketInput :=
          fst (textinput_Update plain (ticketInput details_model)
                 (KeyMsg (KeyRunes ''a'' False False)))\<rparr>,
        map_option WidgetCmd
          (snd (textinput_Update plain (ticketInput details_model)
                  (KeyMsg (KeyRunes ''a'' False False)))))"
proof -
  have h1: "key_String plain (KeyRunes ''q'' False False) = ''q''"
    by (simp add: plain_def)
  have h2: "state details_model = ''enter_details''"
    by (simp add: demo_models)
  have h3: "textinput_Focused plain (ticketInput details_model)"
    by (simp add: demo_models plain_def)
  have h4: "doubling_textinput_Update (ticketInput details_model) (KeyMsg (KeyRunes ''q'' False False))
       \<noteq> textinput_Update plain (ticketInput details_model) (KeyMsg (KeyRunes ''q'' False False))"
    by (simp add: demo_models plain_def doubling_textinput_Update_def plain_textinput_Update_def)
  have h5: "\<forall>ti msg. (\<forall>k. msg = KeyMsg k \<longrightarrow> key_String plain k \<noteq> ''q'')
          \<longrightarrow> doubling_textinput_Update ti msg = textinput_Update plain ti msg"
    by (auto simp: plain_def doubling_textinput_Update_def split: Msg.splits)
  have k1: "key_String plain (KeyRunes ''a'' False False) \<noteq> ''ctrl+c''"
    and k2: "key_String plain (KeyRunes ''a'' False False) \<noteq> ''q''"
    and k3: "key_String plain (KeyRunes ''a'' False False) \<noteq> ''?''"
    and k4: "key_String plain (KeyRunes ''a'' False False) \<noteq> ''esc''"
    and k5: "key_String plain (KeyRunes ''a'' False False) \<noteq> ''enter''"
    by (simp_all add: plain_def)
  note r = q_quits_before_text_input
             [where lib = plain and k = "KeyRunes ''q'' False False" and m = details_model
                and f = doubling_textinput_Update and evs = typing_run
                and k' = "KeyRunes ''a'' False False"]
  note a = r [THEN conjunct1, THEN mp, OF h1]
  note b = r [THEN conjunct2, THEN conjunct1, THEN mp, OF h5]
  note c = r [THEN conjunct2, THEN conjunct2, THEN mp,
              OF conjI [OF h2 conjI [OF h3 conjI [OF k1 conjI [OF k2 conjI [OF k3 conjI [OF k4 k5]]]]]]]
  show ?thesis
    by (intro conjI h1 h2 h3 h4 a [THEN conjunct1] a [THEN conjunct2]
          b [THEN conjunct1] b [THEN conjunct2] k1 k2 k3 k4 k5 c)
qed

text \<open>
  Claim C10 as it is worded (a \<open>q\<close> can never be typed into the notes) fails for a
  text input that takes the characters of the keys it is handed, as the plain one does.
  Several characters that arrive in one key message have the text \<open>quick\<close>, and the
  letter pressed with Alt has the text \<open>alt+q\<close>: neither is the text \<open>q\<close>, the
  program does not quit, and the notes hold a \<open>q\<close>.
\<close>

theorem q_reaches_notes_counterexample:
  "key_String plain (KeyRunes ''quick'' False False) = ''quick''
   \<and> issued plain details_model [KeyMsg (KeyRunes ''quick'' False False)] = [None]
   \<and> \<not> quitting (after plain details_model [KeyMsg (KeyRunes ''quick'' False False)])
   \<and> textinput_Value plain
        (ticketInput (after plain details_model [KeyMsg (KeyRunes ''quick'' False False)]))
       = ''quick''
   \<and> key_String plain (KeyRunes ''q'' True False) = ''alt+q''
   \<and> issued plain details_model [KeyMsg (KeyRunes ''q'' True False)] = [None]
   \<and> \<not> quitting (after plain details_model [KeyMsg (KeyRunes ''q'' True False)])
   \<and> textinput_Value plain
        (ticketInput (after plain details_model [KeyMsg (KeyRunes ''q'' True False)]))
       = ''q''"
  by (simp add: plain_engine demo_models)

end
